theory Spec2Isabelle
  imports Complex_Main "HOL-Library.Word" "HOL-Library.Log_Nat"
begin

unbundle bit_operations_syntax

section \<open>The PID controller of src/main/flight/pid.c\<close>

text \<open>
  A shallow embedding of the attitude controller. A C \<open>float\<close> is a \<^typ>\<open>real\<close>: a finite
  number. Rounding to the 24 bits of a float32 is written out where it decides an integer
  or a bound that a statement below is about: the loop period \<open>dT\<close>, the Nyquist integer
  taken from it, the elapsed time, \<open>maxVelocity\<close>, and the sums and differences of
  \<open>accelerationLimit\<close>. Elsewhere the arithmetic is exact. Infinities and NaN have no value
  in the model: where IEEE division by zero yields one (\<open>ITermWindupPointInv\<close> at a windup
  point of 100, the derivative at an elapsed time of 0) the expression of the source is
  kept and its value is the quotient 0 of HOL. There are two exceptions, written as IEEE
  decides them: the static \<open>relaxFactor\<close>, which is infinite at a relax ratio of 0, and
  the comparison of the crash check that reads the derivative. Unsigned integers keep
  their width as words; file-scope statics and function-scope statics are fields of two
  records that are passed in and returned.
\<close>

subsection \<open>Rounding to float32\<close>

text \<open>
  \<open>roundEven\<close> rounds to the nearest integer and a tie to the even one; \<open>ilog2\<close> is the
  binary exponent of a positive number, the largest \<open>e\<close> with \<open>2 ^ e\<close> at most the number;
  \<open>f32\<close> is the float32 nearest to a real number: 24 significant bits, exponents from
  -126 on (below that the spacing stays that of the subnormal numbers). Numbers beyond
  the largest finite float32 are outside the model.
\<close>

definition roundEven :: "real \<Rightarrow> int" where
  "roundEven r =
     (let f = \<lfloor>r\<rfloor>; d = r - of_int f
      in if d < 1 / 2 then f else if 1 / 2 < d then f + 1 else if even f then f else f + 1)"

definition ilog2 :: "real \<Rightarrow> int" where
  "ilog2 x = (if 1 \<le> x then bitlen \<lfloor>x\<rfloor> - 1 else - bitlen (\<lceil>1 / x\<rceil> - 1))"

definition f32 :: "real \<Rightarrow> real" where
  "f32 x =
     (if x = 0 then 0
      else (let e = max (ilog2 \<bar>x\<bar>) (- 126) - 23
            in of_int (roundEven (x * 2 powi (- e))) * 2 powi e))"

subsection \<open>Helpers of common/maths.h and common/time.h\<close>

text \<open>Modelled from the spec: the macro \<open>ABS\<close> of common/maths.h (not among the sources),
  the magnitude of a number, written as the conditional expression it abbreviates.\<close>

definition ABS :: "'a::linordered_idom \<Rightarrow> 'a" where
  "ABS x = (if x > 0 then x else - x)"

text \<open>Modelled from the spec: the macros \<open>MIN\<close> and \<open>MAX\<close> of common/maths.h (not among
  the sources), the smaller and the larger of two numbers (\<open>MIN\<close> and \<open>MAX\<close> are binders of HOL,
  hence the suffix).\<close>

definition MIN_c :: "'a::linorder \<Rightarrow> 'a \<Rightarrow> 'a" where
  "MIN_c a b = (if a < b then a else b)"

definition MAX_c :: "'a::linorder \<Rightarrow> 'a \<Rightarrow> 'a" where
  "MAX_c a b = (if a > b then a else b)"

text \<open>Modelled from the spec: \<open>constrainf\<close> of common/maths.h (not among the sources), the
  clamp of a value to the interval from \<open>low\<close> to \<open>high\<close>.\<close>

definition constrainf :: "real \<Rightarrow> real \<Rightarrow> real \<Rightarrow> real" where
  "constrainf amt low high =
     (if amt < low then low else if amt > high then high else amt)"

type_synonym u8 = "8 word"
type_synonym u16 = "16 word"
type_synonym u32 = "32 word"
type_synonym i16 = "16 word"
type_synonym timeUs = "32 word"

text \<open>Modelled from the spec: \<open>cmpTimeUs\<close> of common/time.h (not among the sources), the
  signed 32-bit difference of two timestamps of the monotonic microsecond clock.\<close>

definition cmpTimeUs :: "timeUs \<Rightarrow> timeUs \<Rightarrow> int" where
  "cmpTimeUs a b = sint (a - b)"

subsection \<open>Axes, profile and module state\<close>

text \<open>Modelled from the spec: the flight axes roll, pitch and yaw of common/axis.h (not
  among the sources), numbered 0, 1 and 2 (pid.c checks that \<open>FD_YAW\<close> is 2), and the
  indices of the \<open>pid\<close> array of the profile in the order \<open>resetPidProfile\<close> lists them; the
  entry of a flight axis is the one with the same number.\<close>

datatype axis = FD_ROLL | FD_PITCH | FD_YAW

datatype pidIndex =
  PID_ROLL | PID_PITCH | PID_YAW | PID_ALT | PID_POS | PID_POSR | PID_NAVR
  | PID_LEVEL | PID_MAG | PID_VEL

fun pidOfAxis :: "axis \<Rightarrow> pidIndex" where
  "pidOfAxis FD_ROLL = PID_ROLL"
| "pidOfAxis FD_PITCH = PID_PITCH"
| "pidOfAxis FD_YAW = PID_YAW"

record pid8 =
  pid_P :: u8
  pid_I :: u8
  pid_D :: u8

text \<open>Modelled from the spec: the enumeration \<open>pidCrashRecovery_e\<close> of flight/pid.h (not
  among the sources), the crash-recovery feature off, on, or on with the audible alert;
  off is the value that tests false.\<close>

datatype pidCrashRecovery =
  PID_CRASH_RECOVERY_OFF | PID_CRASH_RECOVERY_ON | PID_CRASH_RECOVERY_BEEP

text \<open>Modelled from the spec: the three kinds of low-pass (single-pole, biquad, FIR) of the
  enumeration in common/filter.h (not among the sources), as the numbers the profile
  stores; any other number is an unrecognised kind.\<close>

definition FILTER_PT1 :: u8 where "FILTER_PT1 = 0"
definition FILTER_BIQUAD :: u8 where "FILTER_BIQUAD = 1"
definition FILTER_FIR :: u8 where "FILTER_FIR = 2"

text \<open>
  Modelled from the spec: the struct \<open>pidProfile_t\<close> of flight/pid.h (not among the
  sources), the tunable profile of raw unsigned integers; here are the fields that pid.c
  reads, 8 or 16 bits wide, with the defaults that \<open>resetPidProfile\<close> assigns. The two fields
  whose names the file-scope statics reuse carry the prefix \<open>profile_\<close>.
\<close>

record pidProfile =
  pid :: "pidIndex \<Rightarrow> pid8"
  yaw_lpf_hz :: u16
  dterm_lpf_hz :: u16
  dterm_notch_hz :: u16
  dterm_notch_cutoff :: u16
  dterm_filter_type :: u8
  itermWindupPointPercent :: u8
  levelAngleLimit :: u8
  setpointRelaxRatio :: u8
  profile_dtermSetpointWeight :: u8
  yawRateAccelLimit :: u16
  rateAccelLimit :: u16
  crash_time :: u16
  crash_delay :: u16
  crash_recovery_angle :: u8
  crash_recovery_rate :: u8
  crash_dthreshold :: u16
  crash_gthreshold :: u16
  crash_setpoint_threshold :: u16
  crash_recovery :: pidCrashRecovery
  horizon_tilt_effect :: u8
  horizon_tilt_expert_mode :: u8
  crash_limit_yaw :: u16
  profile_itermLimit :: u16

definition mkPid8 :: "u8 \<Rightarrow> u8 \<Rightarrow> u8 \<Rightarrow> pid8" where
  "mkPid8 p i d = \<lparr>pid_P = p, pid_I = i, pid_D = d\<rparr>"

fun defaultPid :: "pidIndex \<Rightarrow> pid8" where
  "defaultPid PID_ROLL = mkPid8 40 40 30"
| "defaultPid PID_PITCH = mkPid8 58 50 35"
| "defaultPid PID_YAW = mkPid8 70 45 20"
| "defaultPid PID_ALT = mkPid8 50 0 0"
| "defaultPid PID_POS = mkPid8 15 0 0"
| "defaultPid PID_POSR = mkPid8 34 14 53"
| "defaultPid PID_NAVR = mkPid8 25 33 83"
| "defaultPid PID_LEVEL = mkPid8 50 50 75"
| "defaultPid PID_MAG = mkPid8 40 0 0"
| "defaultPid PID_VEL = mkPid8 55 55 75"

definition resetPidProfile :: pidProfile where
  "resetPidProfile =
     \<lparr> pid = defaultPid,
       yaw_lpf_hz = 0,
       dterm_lpf_hz = 100,
       dterm_notch_hz = 260,
       dterm_notch_cutoff = 160,
       dterm_filter_type = FILTER_BIQUAD,
       itermWindupPointPercent = 50,
       levelAngleLimit = 65,
       setpointRelaxRatio = 100,
       profile_dtermSetpointWeight = 0,
       yawRateAccelLimit = 100,
       rateAccelLimit = 0,
       crash_time = 500,
       crash_delay = 0,
       crash_recovery_angle = 10,
       crash_recovery_rate = 100,
       crash_dthreshold = 50,
       crash_gthreshold = 400,
       crash_setpoint_threshold = 350,
       crash_recovery = PID_CRASH_RECOVERY_OFF,
       horizon_tilt_effect = 130,
       horizon_tilt_expert_mode = 0,
       crash_limit_yaw = 200,
       profile_itermLimit = 150 \<rparr>"

text \<open>The values a \<open>filterApplyFnPtr\<close> takes in pid.c once \<open>pidInitFilters\<close> has run, which
  assigns the three pointers on every path. The null pointer they hold before that is not
  a value of the type: a tick is modelled after \<open>pidInit\<close> only.\<close>

datatype filterApplyFnPtr =
  nullFilterApply | pt1FilterApply | biquadFilterApply | firFilterDenoiseUpdate

text \<open>
  The filter library common/filter.c is not among the sources. Its functions are
  parameters of the model: each initialiser yields a filter state of the abstract type
  \<open>'f\<close>, and \<open>filterApply\<close> runs the function a pointer names on a state and a sample,
  giving the filtered sample and the next state. The identity filter is fixed below.
\<close>

datatype biquadFilterType = FILTER_LPF | FILTER_NOTCH

record 'f filter_lib =
  filterGetNotchQ :: "u16 \<Rightarrow> u16 \<Rightarrow> real"
  biquadFilterInit :: "u16 \<Rightarrow> u32 \<Rightarrow> real \<Rightarrow> biquadFilterType \<Rightarrow> 'f"
  biquadFilterInitLPF :: "u16 \<Rightarrow> u32 \<Rightarrow> 'f"
  pt1FilterInit :: "u16 \<Rightarrow> real \<Rightarrow> 'f"
  firFilterDenoiseInit :: "u16 \<Rightarrow> u32 \<Rightarrow> 'f"
  filterApply :: "filterApplyFnPtr \<Rightarrow> 'f \<Rightarrow> real \<Rightarrow> real \<times> 'f"

text \<open>Modelled from the spec: \<open>nullFilterApply\<close> of common/filter.c (not among the sources)
  returns its input unchanged and has no state; every other pointer goes to the library.\<close>

definition applyFn :: "'f filter_lib \<Rightarrow> filterApplyFnPtr \<Rightarrow> 'f \<Rightarrow> real \<Rightarrow> real \<times> 'f" where
  "applyFn lib fn st x =
     (case fn of nullFilterApply \<Rightarrow> (x, st) | _ \<Rightarrow> filterApply lib fn st x)"

text \<open>A float that is a finite number or +infinity, as the static \<open>relaxFactor\<close> is.\<close>

datatype float_inf = Finite real | PlusInfinity

text \<open>The file-scope statics that the initialisers write and a tick only reads.\<close>

record pid_config =
  targetPidLooptime :: u32
  pidStabilisationEnabled :: bool
  dT :: real
  itermAccelerator :: real
  dtermNotchFilterApplyFn :: filterApplyFnPtr
  dtermLpfApplyFn :: filterApplyFnPtr
  ptermYawFilterApplyFn :: filterApplyFnPtr
  Kp :: "axis \<Rightarrow> real"
  Ki :: "axis \<Rightarrow> real"
  Kd :: "axis \<Rightarrow> real"
  maxVelocity :: "axis \<Rightarrow> real"
  relaxFactor :: float_inf
  dtermSetpointWeight :: real
  levelGain :: real
  horizonGain :: real
  horizonTransition :: real
  horizonCutoffDegrees :: real
  horizonFactorRatio :: real
  ITermWindupPointInv :: real
  horizonTiltExpertMode :: u8
  crashTimeLimitUs :: int
  crashTimeDelayUs :: int
  crashRecoveryAngleDeciDegrees :: int
  crashRecoveryRate :: real
  crashDtermThreshold :: real
  crashGyroThreshold :: real
  crashSetpointThreshold :: real
  crashLimitYaw :: real
  itermLimit :: real

text \<open>
  The statics a tick writes: the four output arrays, the crash flag, the function-scope
  statics of \<open>accelerationLimit\<close> and \<open>pidController\<close>, the filter states behind the three
  pointers, and the beeper that \<open>BEEP_ON\<close> and \<open>BEEP_OFF\<close> switch.
\<close>

record 'f pid_state =
  axisPID_P :: "axis \<Rightarrow> real"
  axisPID_I :: "axis \<Rightarrow> real"
  axisPID_D :: "axis \<Rightarrow> real"
  axisPIDSum :: "axis \<Rightarrow> real"
  inCrashRecoveryMode :: bool
  previousSetpoint :: "axis \<Rightarrow> real"
  previousRateError :: "axis \<Rightarrow> real"
  crashDetectedAtUs :: timeUs
  previousTimeUs :: timeUs
  dtermFilterNotch :: "axis \<Rightarrow> 'f"
  dtermFilterLpf :: "axis \<Rightarrow> 'f"
  ptermYawFilter :: 'f
  beeper :: bool

text \<open>
  What the excluded collaborators supply during one tick: receiver, gyro, attitude
  estimate, mode and arming flags, mixer and sensor set. \<open>USE_GPS\<close> is the build option
  under which \<open>pidLevel\<close> adds \<open>GPS_angle\<close>.
\<close>

record tick_env =
  getSetpointRate :: "axis \<Rightarrow> real"
  getRcDeflection :: "axis \<Rightarrow> real"
  getRcDeflectionAbs :: "axis \<Rightarrow> real"
  USE_GPS :: bool
  GPS_angle :: "axis \<Rightarrow> i16"
  gyroADCf :: "axis \<Rightarrow> real"
  attitude_raw :: "axis \<Rightarrow> i16"
  flightModeFlags :: u16
  ARMED :: bool
  gyroOverflowDetected :: bool
  getMotorMixRange :: real
  mixerIsOutputSaturated :: "axis \<Rightarrow> real \<Rightarrow> bool"
  getThrottlePIDAttenuation :: real
  sensors_ACC :: bool

text \<open>Modelled from the spec: the flight-mode flags for angle hold and horizon blend and
  the macro \<open>FLIGHT_MODE\<close> that tests them, of fc/runtime_config.h (not among the sources);
  the two flags are distinct bits of \<open>flightModeFlags\<close>.\<close>

definition ANGLE_MODE :: u16 where "ANGLE_MODE = 1"
definition HORIZON_MODE :: u16 where "HORIZON_MODE = 2"

definition FLIGHT_MODE :: "tick_env \<Rightarrow> u16 \<Rightarrow> bool" where
  "FLIGHT_MODE env m = (flightModeFlags env AND m \<noteq> 0)"


subsection \<open>Initialisation\<close>

definition pidSetTargetLooptime :: "u32 \<Rightarrow> pid_config \<Rightarrow> pid_config" where
  "pidSetTargetLooptime pidLooptime cfg =
     cfg\<lparr>targetPidLooptime := pidLooptime,
         dT := f32 (f32 (real (unat pidLooptime)) * f32 0.000001)\<rparr>"


definition pidSetItermAccelerator :: "real \<Rightarrow> pid_config \<Rightarrow> pid_config" where
  "pidSetItermAccelerator newItermAccelerator cfg =
     cfg\<lparr>itermAccelerator := newItermAccelerator\<rparr>"

text \<open>Modelled from the spec: the enumeration \<open>pidStabilisationState_e\<close> of flight/pid.h
  (not among the sources), stabilisation off or on.\<close>

datatype pidStabilisationState_e = PID_STABILISATION_OFF | PID_STABILISATION_ON

definition pidStabilisationState :: "pidStabilisationState_e \<Rightarrow> pid_config \<Rightarrow> pid_config" where
  "pidStabilisationState pidControllerState cfg =
     cfg\<lparr>pidStabilisationEnabled :=
           (if pidControllerState = PID_STABILISATION_ON then True else False)\<rparr>"

text \<open>
  The local \<open>pidFrequencyNyquist\<close>: the float \<open>(1.0f / dT) / 2\<close>, each quotient rounded,
  converted to \<open>uint32_t\<close>, which truncates. \<open>pidInitFilters\<close> reads it only after the test
  for a zero loop time, so \<open>dT\<close> is positive there.
\<close>

definition pidFrequencyNyquist :: "pid_config \<Rightarrow> u32" where
  "pidFrequencyNyquist cfg = of_nat (nat \<lfloor>f32 (f32 (1 / dT cfg) / 2)\<rfloor>)"

text \<open>The local \<open>dTermNotchHz\<close>; its third case stores the 32-bit value in 16 bits.\<close>

definition dTermNotchHz :: "pidProfile \<Rightarrow> u32 \<Rightarrow> u16" where
  "dTermNotchHz pidProfile nyquist =
     (if unat (dterm_notch_hz pidProfile) \<le> unat nyquist then dterm_notch_hz pidProfile
      else if unat (dterm_notch_cutoff pidProfile) < unat nyquist then ucast nyquist
      else 0)"

definition initNotch ::
  "'f filter_lib \<Rightarrow> pidProfile \<Rightarrow> u32 \<Rightarrow> pid_config \<times> 'f pid_state \<Rightarrow> pid_config \<times> 'f pid_state" where
  "initNotch lib pidProfile nyquist cs =
     (let cfg = fst cs; s = snd cs; hz = dTermNotchHz pidProfile nyquist in
      if hz \<noteq> 0 \<and> dterm_notch_cutoff pidProfile \<noteq> 0 then
        (let notchQ = filterGetNotchQ lib hz (dterm_notch_cutoff pidProfile);
             flt = biquadFilterInit lib hz (targetPidLooptime cfg) notchQ FILTER_NOTCH
         in (cfg\<lparr>dtermNotchFilterApplyFn := biquadFilterApply\<rparr>,
             s\<lparr>dtermFilterNotch := (dtermFilterNotch s)(FD_ROLL := flt, FD_PITCH := flt)\<rparr>))
      else (cfg\<lparr>dtermNotchFilterApplyFn := nullFilterApply\<rparr>, s))"

definition initDtermLpf ::
  "'f filter_lib \<Rightarrow> pidProfile \<Rightarrow> u32 \<Rightarrow> pid_config \<times> 'f pid_state \<Rightarrow> pid_config \<times> 'f pid_state" where
  "initDtermLpf lib pidProfile nyquist cs =
     (let cfg = fst cs; s = snd cs; hz = dterm_lpf_hz pidProfile in
      if hz = 0 \<or> unat hz > unat nyquist then
        (cfg\<lparr>dtermLpfApplyFn := nullFilterApply\<rparr>, s)
      else if dterm_filter_type pidProfile = FILTER_PT1 then
        (let flt = pt1FilterInit lib hz (dT cfg)
         in (cfg\<lparr>dtermLpfApplyFn := pt1FilterApply\<rparr>,
             s\<lparr>dtermFilterLpf := (dtermFilterLpf s)(FD_ROLL := flt, FD_PITCH := flt)\<rparr>))
      else if dterm_filter_type pidProfile = FILTER_BIQUAD then
        (let flt = biquadFilterInitLPF lib hz (targetPidLooptime cfg)
         in (cfg\<lparr>dtermLpfApplyFn := biquadFilterApply\<rparr>,
             s\<lparr>dtermFilterLpf := (dtermFilterLpf s)(FD_ROLL := flt, FD_PITCH := flt)\<rparr>))
      else if dterm_filter_type pidProfile = FILTER_FIR then
        (let flt = firFilterDenoiseInit lib hz (targetPidLooptime cfg)
         in (cfg\<lparr>dtermLpfApplyFn := firFilterDenoiseUpdate\<rparr>,
             s\<lparr>dtermFilterLpf := (dtermFilterLpf s)(FD_ROLL := flt, FD_PITCH := flt)\<rparr>))
      else (cfg\<lparr>dtermLpfApplyFn := nullFilterApply\<rparr>, s))"

definition initYawLpf ::
  "'f filter_lib \<Rightarrow> pidProfile \<Rightarrow> u32 \<Rightarrow> pid_config \<times> 'f pid_state \<Rightarrow> pid_config \<times> 'f pid_state" where
  "initYawLpf lib pidProfile nyquist cs =
     (let cfg = fst cs; s = snd cs; hz = yaw_lpf_hz pidProfile in
      if hz = 0 \<or> unat hz > unat nyquist then
        (cfg\<lparr>ptermYawFilterApplyFn := nullFilterApply\<rparr>, s)
      else
        (cfg\<lparr>ptermYawFilterApplyFn := pt1FilterApply\<rparr>,
         s\<lparr>ptermYawFilter := pt1FilterInit lib hz (dT cfg)\<rparr>))"

definition pidInitFilters ::
  "'f filter_lib \<Rightarrow> pidProfile \<Rightarrow> pid_config \<times> 'f pid_state \<Rightarrow> pid_config \<times> 'f pid_state" where
  "pidInitFilters lib pidProfile cs =
     (if targetPidLooptime (fst cs) = 0 then
        ((fst cs)\<lparr>dtermNotchFilterApplyFn := nullFilterApply,
                  dtermLpfApplyFn := nullFilterApply,
                  ptermYawFilterApplyFn := nullFilterApply\<rparr>, snd cs)
      else
        (let nyquist = pidFrequencyNyquist (fst cs)
         in initYawLpf lib pidProfile nyquist
              (initDtermLpf lib pidProfile nyquist
                (initNotch lib pidProfile nyquist cs))))"

text \<open>
  The scale constants \<open>PTERM_SCALE\<close>, \<open>ITERM_SCALE\<close> and \<open>DTERM_SCALE\<close> are macros of
  flight/pid.h, which is not among the sources; they are parameters.
\<close>

record pid_scales =
  PTERM_SCALE :: real
  ITERM_SCALE :: real
  DTERM_SCALE :: real

definition pidInitConfig :: "pid_scales \<Rightarrow> pidProfile \<Rightarrow> pid_config \<Rightarrow> pid_config" where
  "pidInitConfig sc pidProfile cfg =
     (let ITermWindupPoint = real (unat (itermWindupPointPercent pidProfile)) / 100 in
      cfg\<lparr>
        Kp := (\<lambda>axis. PTERM_SCALE sc * real (unat (pid_P (pid pidProfile (pidOfAxis axis))))),
        Ki := (\<lambda>axis. ITERM_SCALE sc * real (unat (pid_I (pid pidProfile (pidOfAxis axis))))),
        Kd := (\<lambda>axis. DTERM_SCALE sc * real (unat (pid_D (pid pidProfile (pidOfAxis axis))))),
        dtermSetpointWeight := real (unat (profile_dtermSetpointWeight pidProfile)) / 127,
        relaxFactor :=
          (if setpointRelaxRatio pidProfile = 0 then PlusInfinity
           else Finite (1 / (real (unat (setpointRelaxRatio pidProfile)) / 100))),
        levelGain := real (unat (pid_P (pid pidProfile PID_LEVEL))) / 10,
        horizonGain := real (unat (pid_I (pid pidProfile PID_LEVEL))) / 10,
        horizonTransition := real (unat (pid_D (pid pidProfile PID_LEVEL))),
        horizonTiltExpertMode := horizon_tilt_expert_mode pidProfile,
        horizonCutoffDegrees :=
          real_of_int (175 - int (unat (horizon_tilt_effect pidProfile))) * 1.8,
        horizonFactorRatio :=
          real_of_int (100 - int (unat (horizon_tilt_effect pidProfile))) * 0.01,
        maxVelocity := (\<lambda>axis.
          if axis = FD_YAW
          then f32 (f32 (real (unat (yawRateAccelLimit pidProfile) * 100)) * dT cfg)
          else f32 (f32 (real (unat (rateAccelLimit pidProfile) * 100)) * dT cfg)),
        ITermWindupPointInv := 1 / (1 - ITermWindupPoint),
        crashTimeLimitUs := int (unat (crash_time pidProfile)) * 1000,
        crashTimeDelayUs := int (unat (crash_delay pidProfile)) * 1000,
        crashRecoveryAngleDeciDegrees := int (unat (crash_recovery_angle pidProfile)) * 10,
        crashRecoveryRate := real (unat (crash_recovery_rate pidProfile)),
        crashGyroThreshold := real (unat (crash_gthreshold pidProfile)),
        crashDtermThreshold := real (unat (crash_dthreshold pidProfile)),
        crashSetpointThreshold := real (unat (crash_setpoint_threshold pidProfile)),
        crashLimitYaw := real (unat (crash_limit_yaw pidProfile)),
        itermLimit := real (unat (profile_itermLimit pidProfile))\<rparr>)"

text \<open>\<open>pidInit\<close>; the product of the gyro loop time and the denominator wraps at 32 bits.\<close>

definition pidInit ::
  "'f filter_lib \<Rightarrow> pid_scales \<Rightarrow> u32 \<Rightarrow> u8 \<Rightarrow> pidProfile \<Rightarrow> pid_config \<times> 'f pid_state
     \<Rightarrow> pid_config \<times> 'f pid_state" where
  "pidInit lib sc gyroTargetLooptime pid_process_denom pidProfile cs =
     (let cs1 = pidInitFilters lib pidProfile
                  (pidSetTargetLooptime (gyroTargetLooptime * ucast pid_process_denom) (fst cs),
                   snd cs)
      in (pidInitConfig sc pidProfile (fst cs1), snd cs1))"

subsection \<open>Leveling and acceleration limiting\<close>

text \<open>\<open>attitude.values.roll\<close> and \<open>attitude.values.pitch\<close> share storage with
  \<open>attitude.raw[0]\<close> and \<open>attitude.raw[1]\<close>; 16-bit operands are promoted to \<open>int\<close>.\<close>

definition currentInclination :: "tick_env \<Rightarrow> real" where
  "currentInclination env =
     real_of_int (MAX_c (ABS (sint (attitude_raw env FD_ROLL)))
                        (ABS (sint (attitude_raw env FD_PITCH)))) / 10"

definition calcHorizonLevelStrength :: "pid_config \<Rightarrow> tick_env \<Rightarrow> real" where
  "calcHorizonLevelStrength cfg env =
     (let horizonLevelStrength =
        (if horizonTiltExpertMode cfg \<noteq> 0 then
           (if horizonTransition cfg > 0 \<and> horizonCutoffDegrees cfg > 0 then
              constrainf ((horizonCutoffDegrees cfg - currentInclination env)
                            / horizonCutoffDegrees cfg) 0 1
            else 0)
         else
           (if horizonCutoffDegrees cfg > 0 then
              constrainf (((horizonCutoffDegrees cfg - currentInclination env) * 2)
                            / horizonCutoffDegrees cfg) 0 1
            else 0))
      in constrainf horizonLevelStrength 0 1)"

text \<open>The local \<open>errorAngle\<close> of \<open>pidLevel\<close>.\<close>

definition errorAngle :: "tick_env \<Rightarrow> axis \<Rightarrow> pidProfile \<Rightarrow> (axis \<Rightarrow> i16) \<Rightarrow> real" where
  "errorAngle env axis pidProfile angleTrim =
     (let angle0 = real (unat (levelAngleLimit pidProfile)) * getRcDeflection env axis;
          angle1 = (if USE_GPS env then angle0 + real_of_int (sint (GPS_angle env axis))
                    else angle0);
          angle = constrainf angle1 (- real (unat (levelAngleLimit pidProfile)))
                    (real (unat (levelAngleLimit pidProfile)))
      in angle - real_of_int (sint (attitude_raw env axis) - sint (angleTrim axis)) / 10)"

definition pidLevel ::
  "pid_config \<Rightarrow> tick_env \<Rightarrow> axis \<Rightarrow> pidProfile \<Rightarrow> (axis \<Rightarrow> i16) \<Rightarrow> real \<Rightarrow> real" where
  "pidLevel cfg env axis pidProfile angleTrim currentPidSetpoint =
     (let errAngle = errorAngle env axis pidProfile angleTrim in
      if FLIGHT_MODE env ANGLE_MODE then errAngle * levelGain cfg
      else
        (let horizonLevelStrength = calcHorizonLevelStrength cfg env;
             racemodeInclination = currentInclination env
         in if horizonTiltExpertMode cfg \<noteq> 0 then
              currentPidSetpoint + (errAngle * horizonGain cfg * horizonLevelStrength)
            else if racemodeInclination < real (unat (levelAngleLimit pidProfile)) then
              errAngle * horizonGain cfg
            else
              currentPidSetpoint + (errAngle * horizonGain cfg * horizonLevelStrength)))"

text \<open>\<open>accelerationLimit\<close>; the difference and the two sums are float32 operations.\<close>

definition accelerationLimit ::
  "pid_config \<Rightarrow> axis \<Rightarrow> real \<Rightarrow> 'f pid_state \<Rightarrow> real \<times> 'f pid_state" where
  "accelerationLimit cfg axis currentPidSetpoint s =
     (let currentVelocity = f32 (currentPidSetpoint - previousSetpoint s axis);
          limited =
            (if ABS currentVelocity > maxVelocity cfg axis then
               (if currentVelocity > 0 then f32 (previousSetpoint s axis + maxVelocity cfg axis)
                else f32 (previousSetpoint s axis - maxVelocity cfg axis))
             else currentPidSetpoint)
      in (limited, s\<lparr>previousSetpoint := (previousSetpoint s)(axis := limited)\<rparr>))"

subsection \<open>One tick of \<open>pidController\<close>\<close>

definition dynCi :: "pid_config \<Rightarrow> tick_env \<Rightarrow> real" where
  "dynCi cfg env =
     MIN_c ((1 - getMotorMixRange env) * ITermWindupPointInv cfg) 1 * dT cfg * itermAccelerator cfg"

definition dynCd :: "pid_config \<Rightarrow> tick_env \<Rightarrow> real" where
  "dynCd cfg env = (if flightModeFlags env \<noteq> 0 then 0 else dtermSetpointWeight cfg)"

text \<open>The setpoint of an axis before the error is taken: the receiver's rate, limited in
  acceleration, then levelled. \<open>YAW\<close> and \<open>PITCH\<close> of fc/rc_controls.h number the axes as
  \<open>FD_YAW\<close> and \<open>FD_PITCH\<close> do.\<close>

definition limitedSetpoint ::
  "pid_config \<Rightarrow> tick_env \<Rightarrow> axis \<Rightarrow> 'f pid_state \<Rightarrow> real \<times> 'f pid_state" where
  "limitedSetpoint cfg env axis s =
     (if maxVelocity cfg axis \<noteq> 0 then accelerationLimit cfg axis (getSetpointRate env axis) s
      else (getSetpointRate env axis, s))"

definition axisSetpoint ::
  "pid_config \<Rightarrow> pidProfile \<Rightarrow> (axis \<Rightarrow> i16) \<Rightarrow> tick_env \<Rightarrow> axis \<Rightarrow> 'f pid_state
     \<Rightarrow> real \<times> 'f pid_state" where
  "axisSetpoint cfg pidProfile angleTrim env axis s =
     (let ls = limitedSetpoint cfg env axis s;
          sp1 = (if FLIGHT_MODE env HORIZON_MODE \<and> (axis \<noteq> FD_YAW \<and> axis \<noteq> FD_PITCH)
                 then pidLevel cfg env axis pidProfile angleTrim (fst ls) else fst ls);
          sp2 = (if FLIGHT_MODE env ANGLE_MODE \<and> axis \<noteq> FD_YAW
                 then pidLevel cfg env axis pidProfile angleTrim sp1 else sp1)
      in (sp2, snd ls))"

text \<open>The block guarded by \<open>inCrashRecoveryMode\<close> and the elapsed delay: the recovery
  control law, the reset of the integral, and the exits by time limit or by calm rates.\<close>

definition crashRecoveryExit ::
  "pid_config \<Rightarrow> (axis \<Rightarrow> i16) \<Rightarrow> tick_env \<Rightarrow> timeUs \<Rightarrow> 'f pid_state \<Rightarrow> 'f pid_state" where
  "crashRecoveryExit cfg angleTrim env currentTimeUs s =
     (if cmpTimeUs currentTimeUs (crashDetectedAtUs s) > crashTimeLimitUs cfg
         \<or> (getMotorMixRange env < 1
             \<and> ABS (gyroADCf env FD_ROLL) < crashRecoveryRate cfg
             \<and> ABS (gyroADCf env FD_PITCH) < crashRecoveryRate cfg
             \<and> ABS (gyroADCf env FD_YAW) < crashRecoveryRate cfg) then
        (if sensors_ACC env then
           (if ABS (sint (attitude_raw env FD_ROLL) - sint (angleTrim FD_ROLL))
                  < crashRecoveryAngleDeciDegrees cfg
               \<and> ABS (sint (attitude_raw env FD_PITCH) - sint (angleTrim FD_PITCH))
                  < crashRecoveryAngleDeciDegrees cfg then
              s\<lparr>inCrashRecoveryMode := False, beeper := False\<rparr>
            else s)
         else s\<lparr>inCrashRecoveryMode := False, beeper := False\<rparr>)
      else s)"

definition crashRecovery ::
  "pid_config \<Rightarrow> pidProfile \<Rightarrow> (axis \<Rightarrow> i16) \<Rightarrow> tick_env \<Rightarrow> timeUs \<Rightarrow> axis
     \<Rightarrow> real \<Rightarrow> real \<Rightarrow> 'f pid_state \<Rightarrow> real \<times> real \<times> 'f pid_state" where
  "crashRecovery cfg pidProfile angleTrim env currentTimeUs axis currentPidSetpoint errorRate s =
     (if inCrashRecoveryMode s
         \<and> cmpTimeUs currentTimeUs (crashDetectedAtUs s) > crashTimeDelayUs cfg then
        (let s1 = (if crash_recovery pidProfile = PID_CRASH_RECOVERY_BEEP
                   then s\<lparr>beeper := True\<rparr> else s);
             levelled = (- real_of_int (sint (attitude_raw env axis) - sint (angleTrim axis)) / 10)
                          * levelGain cfg;
             sp = (if axis \<noteq> FD_YAW \<and> sensors_ACC env then levelled else currentPidSetpoint);
             err = (if axis = FD_YAW
                    then constrainf errorRate (- crashLimitYaw cfg) (crashLimitYaw cfg)
                    else if sensors_ACC env then levelled - gyroADCf env axis
                    else errorRate);
             s2 = s1\<lparr>axisPID_I := (axisPID_I s1)(axis := 0)\<rparr>
         in (sp, err, crashRecoveryExit cfg angleTrim env currentTimeUs s2))
      else (currentPidSetpoint, errorRate, s))"

definition ptermStep ::
  "'f filter_lib \<Rightarrow> pid_config \<Rightarrow> tick_env \<Rightarrow> axis \<Rightarrow> real \<Rightarrow> 'f pid_state \<Rightarrow> 'f pid_state" where
  "ptermStep lib cfg env axis errorRate s =
     (let p = Kp cfg axis * errorRate * getThrottlePIDAttenuation env in
      if axis = FD_YAW then
        (let r = applyFn lib (ptermYawFilterApplyFn cfg) (ptermYawFilter s) p
         in s\<lparr>axisPID_P := (axisPID_P s)(axis := fst r), ptermYawFilter := snd r\<rparr>)
      else s\<lparr>axisPID_P := (axisPID_P s)(axis := p)\<rparr>)"

definition itermStep ::
  "pid_config \<Rightarrow> tick_env \<Rightarrow> axis \<Rightarrow> real \<Rightarrow> 'f pid_state \<Rightarrow> 'f pid_state" where
  "itermStep cfg env axis errorRate s =
     (let ITerm = axisPID_I s axis;
          ITermNew = constrainf (ITerm + Ki cfg axis * errorRate * dynCi cfg env)
                       (- itermLimit cfg) (itermLimit cfg);
          outputSaturated = mixerIsOutputSaturated env axis errorRate
      in if outputSaturated = False \<or> ABS ITermNew < ABS ITerm
         then s\<lparr>axisPID_I := (axisPID_I s)(axis := ITermNew)\<rparr>
         else s)"

text \<open>
  The test \<open>ABS(delta) > crashDtermThreshold\<close> of the crash check, for the quotient \<open>delta\<close>
  of the change of \<open>rD\<close> and the elapsed time. At an elapsed time of zero the IEEE quotient
  is infinite, and above every threshold, when the change is not zero; it is not a number,
  and above none, when the change is zero.
\<close>

definition deltaAbove :: "real \<Rightarrow> real \<Rightarrow> real \<Rightarrow> bool" where
  "deltaAbove change deltaT threshold =
     (if deltaT = 0 then change \<noteq> 0 else ABS (change / deltaT) > threshold)"

text \<open>The crash check inside the derivative block, entered on the roll and pitch axes.\<close>

definition crashDetect ::
  "pid_config \<Rightarrow> pidProfile \<Rightarrow> tick_env \<Rightarrow> timeUs \<Rightarrow> axis \<Rightarrow> real \<Rightarrow> real \<Rightarrow> real
     \<Rightarrow> 'f pid_state \<Rightarrow> 'f pid_state" where
  "crashDetect cfg pidProfile env currentTimeUs axis change deltaT errorRate s =
     (if crash_recovery pidProfile \<noteq> PID_CRASH_RECOVERY_OFF \<and> \<not> gyroOverflowDetected env then
        (if ARMED env then
           (let s1 = (if getMotorMixRange env \<ge> 1 \<and> \<not> inCrashRecoveryMode s
                         \<and> deltaAbove change deltaT (crashDtermThreshold cfg)
                         \<and> ABS errorRate > crashGyroThreshold cfg
                         \<and> ABS (getSetpointRate env axis) < crashSetpointThreshold cfg
                      then s\<lparr>inCrashRecoveryMode := True, crashDetectedAtUs := currentTimeUs\<rparr>
                      else s)
            in if inCrashRecoveryMode s1
                  \<and> cmpTimeUs currentTimeUs (crashDetectedAtUs s1) < crashTimeDelayUs cfg
                  \<and> (ABS errorRate < crashGyroThreshold cfg
                      \<or> ABS (getSetpointRate env axis) > crashSetpointThreshold cfg)
               then s1\<lparr>inCrashRecoveryMode := False, beeper := False\<rparr>
               else s1)
         else if inCrashRecoveryMode s then s\<lparr>inCrashRecoveryMode := False, beeper := False\<rparr>
         else s)
      else s)"

text \<open>The filtered gyro rate and the locals \<open>rD\<close> and \<open>delta\<close> of the derivative block.\<close>

definition dtermFiltered ::
  "'f filter_lib \<Rightarrow> pid_config \<Rightarrow> tick_env \<Rightarrow> axis \<Rightarrow> 'f pid_state \<Rightarrow> real \<times> 'f \<times> 'f" where
  "dtermFiltered lib cfg env axis s =
     (let r1 = applyFn lib (dtermNotchFilterApplyFn cfg) (dtermFilterNotch s axis) (gyroADCf env axis);
          r2 = applyFn lib (dtermLpfApplyFn cfg) (dtermFilterLpf s axis) (fst r1)
      in (fst r2, snd r1, snd r2))"

text \<open>
  The factor \<open>MIN(getRcDeflectionAbs(axis) * relaxFactor, 1.0f)\<close> of \<open>rD\<close>. With an infinite
  \<open>relaxFactor\<close> the product is +infinity, or not a number at a deflection of zero, and
  \<open>MIN\<close>, the conditional \<open>a < b ? a : b\<close>, yields \<open>1.0f\<close> for both. \<open>getRcDeflectionAbs\<close> returns
  a magnitude; a negative one times infinity is outside the model.
\<close>

definition relaxWeight :: "pid_config \<Rightarrow> tick_env \<Rightarrow> axis \<Rightarrow> real" where
  "relaxWeight cfg env axis =
     (case relaxFactor cfg of
        Finite r \<Rightarrow> MIN_c (getRcDeflectionAbs env axis * r) 1
      | PlusInfinity \<Rightarrow> 1)"

definition rateD ::
  "'f filter_lib \<Rightarrow> pid_config \<Rightarrow> tick_env \<Rightarrow> axis \<Rightarrow> real \<Rightarrow> 'f pid_state \<Rightarrow> real" where
  "rateD lib cfg env axis currentPidSetpoint s =
     dynCd cfg env * relaxWeight cfg env axis * currentPidSetpoint
       - fst (dtermFiltered lib cfg env axis s)"

definition rateChange ::
  "'f filter_lib \<Rightarrow> pid_config \<Rightarrow> tick_env \<Rightarrow> axis \<Rightarrow> real \<Rightarrow> 'f pid_state \<Rightarrow> real" where
  "rateChange lib cfg env axis currentPidSetpoint s =
     rateD lib cfg env axis currentPidSetpoint s - previousRateError s axis"

definition dtermDelta ::
  "'f filter_lib \<Rightarrow> pid_config \<Rightarrow> tick_env \<Rightarrow> real \<Rightarrow> axis \<Rightarrow> real \<Rightarrow> 'f pid_state \<Rightarrow> real" where
  "dtermDelta lib cfg env deltaT axis currentPidSetpoint s =
     rateChange lib cfg env axis currentPidSetpoint s / deltaT"

definition dtermStep ::
  "'f filter_lib \<Rightarrow> pid_config \<Rightarrow> pidProfile \<Rightarrow> tick_env \<Rightarrow> timeUs \<Rightarrow> real \<Rightarrow> axis
     \<Rightarrow> real \<Rightarrow> real \<Rightarrow> 'f pid_state \<Rightarrow> 'f pid_state" where
  "dtermStep lib cfg pidProfile env currentTimeUs deltaT axis currentPidSetpoint errorRate s =
     (if axis \<noteq> FD_YAW then
        (let flt = dtermFiltered lib cfg env axis s;
             rD = rateD lib cfg env axis currentPidSetpoint s;
             delta = dtermDelta lib cfg env deltaT axis currentPidSetpoint s;
             s1 = s\<lparr>previousRateError := (previousRateError s)(axis := rD),
                    dtermFilterNotch := (dtermFilterNotch s)(axis := fst (snd flt)),
                    dtermFilterLpf := (dtermFilterLpf s)(axis := snd (snd flt))\<rparr>;
             s2 = crashDetect cfg pidProfile env currentTimeUs axis
                    (rateChange lib cfg env axis currentPidSetpoint s) deltaT errorRate s1;
             d = Kd cfg axis * delta * getThrottlePIDAttenuation env
         in s2\<lparr>axisPID_D := (axisPID_D s2)(axis := d),
               axisPIDSum := (axisPIDSum s2)(axis := axisPID_P s2 axis + axisPID_I s2 axis + d)\<rparr>)
      else s\<lparr>axisPIDSum := (axisPIDSum s)(axis := axisPID_P s axis + axisPID_I s axis)\<rparr>)"

definition disableStep :: "pid_config \<Rightarrow> tick_env \<Rightarrow> axis \<Rightarrow> 'f pid_state \<Rightarrow> 'f pid_state" where
  "disableStep cfg env axis s =
     (if \<not> pidStabilisationEnabled cfg \<or> gyroOverflowDetected env then
        s\<lparr>axisPID_P := (axisPID_P s)(axis := 0),
          axisPID_I := (axisPID_I s)(axis := 0),
          axisPID_D := (axisPID_D s)(axis := 0),
          axisPIDSum := (axisPIDSum s)(axis := 0)\<rparr>
      else s)"

text \<open>The body of the loop over the axes. \<open>errorRate\<close> is the rate error of an axis as the
  P, I and crash-check code sees it, after the recovery block.\<close>

definition recovered ::
  "pid_config \<Rightarrow> pidProfile \<Rightarrow> (axis \<Rightarrow> i16) \<Rightarrow> tick_env \<Rightarrow> timeUs \<Rightarrow> axis \<Rightarrow> 'f pid_state
     \<Rightarrow> real \<times> real \<times> 'f pid_state" where
  "recovered cfg pidProfile angleTrim env currentTimeUs axis s =
     (let sp = axisSetpoint cfg pidProfile angleTrim env axis s
      in crashRecovery cfg pidProfile angleTrim env currentTimeUs axis
           (fst sp) (fst sp - gyroADCf env axis) (snd sp))"

definition pidAxis ::
  "'f filter_lib \<Rightarrow> pid_config \<Rightarrow> pidProfile \<Rightarrow> (axis \<Rightarrow> i16) \<Rightarrow> tick_env \<Rightarrow> timeUs \<Rightarrow> real
     \<Rightarrow> axis \<Rightarrow> 'f pid_state \<Rightarrow> 'f pid_state" where
  "pidAxis lib cfg pidProfile angleTrim env currentTimeUs deltaT axis s =
     (let r = recovered cfg pidProfile angleTrim env currentTimeUs axis s;
          currentPidSetpoint = fst r;
          errorRate = fst (snd r);
          s3 = ptermStep lib cfg env axis errorRate (snd (snd r));
          s4 = itermStep cfg env axis errorRate s3;
          s5 = dtermStep lib cfg pidProfile env currentTimeUs deltaT axis
                 currentPidSetpoint errorRate s4
      in disableStep cfg env axis s5)"

text \<open>
  The local \<open>deltaT\<close> of \<open>pidController\<close>: the 32-bit difference of the two timestamps as a
  float, times \<open>0.000001f\<close>.
\<close>

definition elapsed :: "timeUs \<Rightarrow> timeUs \<Rightarrow> real" where
  "elapsed currentTimeUs previous = f32 (f32 (real (unat (currentTimeUs - previous))) * f32 0.000001)"

definition pidController ::
  "'f filter_lib \<Rightarrow> pid_config \<Rightarrow> pidProfile \<Rightarrow> (axis \<Rightarrow> i16) \<Rightarrow> tick_env \<Rightarrow> timeUs
     \<Rightarrow> 'f pid_state \<Rightarrow> 'f pid_state" where
  "pidController lib cfg pidProfile angleTrim env currentTimeUs s =
     (let deltaT = elapsed currentTimeUs (previousTimeUs s);
          s0 = s\<lparr>previousTimeUs := currentTimeUs\<rparr>
      in foldl (\<lambda>st axis. pidAxis lib cfg pidProfile angleTrim env currentTimeUs deltaT axis st)
           s0 [FD_ROLL, FD_PITCH, FD_YAW])"

definition crashRecoveryModeActive :: "'f pid_state \<Rightarrow> bool" where
  "crashRecoveryModeActive s = inCrashRecoveryMode s"

subsection \<open>Concrete inputs\<close>

text \<open>A filter library whose filters have no state and pass every sample through, a
  record of statics for \<open>pidInit\<close> to overwrite (it assigns every field but
  \<open>itermAccelerator\<close>, which starts as 1, and \<open>pidStabilisationEnabled\<close>, which starts as
  false), the state at start-up, and a tick with everything at rest.\<close>

definition idLib :: "unit filter_lib" where
  "idLib =
     \<lparr> filterGetNotchQ = (\<lambda>centre cutoff. 1),
       biquadFilterInit = (\<lambda>hz looptime q kind. ()),
       biquadFilterInitLPF = (\<lambda>hz looptime. ()),
       pt1FilterInit = (\<lambda>hz period. ()),
       firFilterDenoiseInit = (\<lambda>hz looptime. ()),
       filterApply = (\<lambda>fn st x. (x, st)) \<rparr>"

definition unitScales :: pid_scales where
  "unitScales = \<lparr> PTERM_SCALE = 1, ITERM_SCALE = 1, DTERM_SCALE = 1 \<rparr>"

definition priorConfig :: pid_config where
  "priorConfig =
     \<lparr> targetPidLooptime = 0, pidStabilisationEnabled = False, dT = 0, itermAccelerator = 1,
       dtermNotchFilterApplyFn = nullFilterApply, dtermLpfApplyFn = nullFilterApply,
       ptermYawFilterApplyFn = nullFilterApply,
       Kp = (\<lambda>axis. 0), Ki = (\<lambda>axis. 0), Kd = (\<lambda>axis. 0), maxVelocity = (\<lambda>axis. 0),
       relaxFactor = Finite 0, dtermSetpointWeight = 0, levelGain = 0, horizonGain = 0,
       horizonTransition = 0, horizonCutoffDegrees = 0, horizonFactorRatio = 0,
       ITermWindupPointInv = 0, horizonTiltExpertMode = 0, crashTimeLimitUs = 0,
       crashTimeDelayUs = 0, crashRecoveryAngleDeciDegrees = 0, crashRecoveryRate = 0,
       crashDtermThreshold = 0, crashGyroThreshold = 0, crashSetpointThreshold = 0,
       crashLimitYaw = 0, itermLimit = 0 \<rparr>"

definition bootState :: "unit pid_state" where
  "bootState =
     \<lparr> axisPID_P = (\<lambda>axis. 0), axisPID_I = (\<lambda>axis. 0), axisPID_D = (\<lambda>axis. 0),
       axisPIDSum = (\<lambda>axis. 0), inCrashRecoveryMode = False,
       previousSetpoint = (\<lambda>axis. 0), previousRateError = (\<lambda>axis. 0),
       crashDetectedAtUs = 0, previousTimeUs = 0,
       dtermFilterNotch = (\<lambda>axis. ()), dtermFilterLpf = (\<lambda>axis. ()), ptermYawFilter = (),
       beeper = False \<rparr>"

definition restEnv :: tick_env where
  "restEnv =
     \<lparr> getSetpointRate = (\<lambda>axis. 0), getRcDeflection = (\<lambda>axis. 0),
       getRcDeflectionAbs = (\<lambda>axis. 0), USE_GPS = False, GPS_angle = (\<lambda>axis. 0),
       gyroADCf = (\<lambda>axis. 0), attitude_raw = (\<lambda>axis. 0), flightModeFlags = 0,
       ARMED = False, gyroOverflowDetected = False, getMotorMixRange = 0,
       mixerIsOutputSaturated = (\<lambda>axis errorRate. False), getThrottlePIDAttenuation = 1,
       sensors_ACC = True \<rparr>"

definition noTrim :: "axis \<Rightarrow> i16" where
  "noTrim = (\<lambda>axis. 0)"

text \<open>The configuration that \<open>pidInit\<close> derives from a profile at a loop time.\<close>

definition configOf :: "pidProfile \<Rightarrow> u32 \<Rightarrow> pid_config" where
  "configOf pidProfile looptime =
     fst (pidInit idLib unitScales looptime 1 pidProfile (priorConfig, bootState))"

text \<open>Inputs for the examples below: the default profile with stabilisation on, a
  saturated mixer, a crash while armed, a gyro overflow during recovery, the expert
  sub-mode without a level D value, a tilted attitude, unequal level gains, the horizon
  and angle flags, and a low-pass cutoff of 1 Hz.\<close>

definition activeConfig :: pid_config where
  "activeConfig = pidStabilisationState PID_STABILISATION_ON (configOf resetPidProfile 1000)"

definition saturatedEnv :: tick_env where
  "saturatedEnv = restEnv\<lparr>mixerIsOutputSaturated := (\<lambda>axis errorRate. True),
                           getSetpointRate := (\<lambda>axis. 100)\<rparr>"

definition crashProfile :: pidProfile where
  "crashProfile = resetPidProfile\<lparr>crash_recovery := PID_CRASH_RECOVERY_ON\<rparr>"

definition crashConfig :: pid_config where
  "crashConfig = pidStabilisationState PID_STABILISATION_ON (configOf crashProfile 1000)"

definition crashEnv :: tick_env where
  "crashEnv = restEnv\<lparr>ARMED := True, getMotorMixRange := 1,
                       gyroADCf := (\<lambda>axis. if axis = FD_ROLL then 500 else 0)\<rparr>"

definition overflowEnv :: tick_env where
  "overflowEnv = restEnv\<lparr>gyroOverflowDetected := True, getMotorMixRange := 1\<rparr>"

definition recoveringState :: "unit pid_state" where
  "recoveringState = bootState\<lparr>inCrashRecoveryMode := True\<rparr>"

definition expertProfile :: pidProfile where
  "expertProfile =
     resetPidProfile\<lparr>horizon_tilt_expert_mode := 1,
                      pid := defaultPid(PID_LEVEL := mkPid8 50 50 0)\<rparr>"

definition expertConfig :: pid_config where
  "expertConfig = configOf expertProfile 1000"

definition tiltedEnv :: tick_env where
  "tiltedEnv = restEnv\<lparr>attitude_raw := (\<lambda>axis. if axis = FD_ROLL then 648 else 0)\<rparr>"

definition gainProfile :: pidProfile where
  "gainProfile = resetPidProfile\<lparr>pid := defaultPid(PID_LEVEL := mkPid8 50 30 75)\<rparr>"

definition gainConfig :: pid_config where
  "gainConfig = configOf gainProfile 1000"

definition horizonEnv :: tick_env where
  "horizonEnv = restEnv\<lparr>flightModeFlags := HORIZON_MODE, getRcDeflection := (\<lambda>axis. 1),
                         getSetpointRate := (\<lambda>axis. 200)\<rparr>"

definition angleEnv :: tick_env where
  "angleEnv = horizonEnv\<lparr>flightModeFlags := flightModeFlags horizonEnv OR ANGLE_MODE\<rparr>"

definition slowProfile :: pidProfile where
  "slowProfile = resetPidProfile\<lparr>dterm_lpf_hz := 1\<rparr>"

text \<open>Further inputs: a roll accumulator just below the limit of 150 with a commanded rate
  on every axis.\<close>

definition chargedState :: "unit pid_state" where
  "chargedState = bootState\<lparr>axisPID_I := (\<lambda>axis. if axis = FD_ROLL then 149 else 0)\<rparr>"

definition commandEnv :: tick_env where
  "commandEnv = restEnv\<lparr>getSetpointRate := (\<lambda>axis. 100)\<rparr>"

text \<open>A state with outputs on every axis, and the commanded tick with the gyro overflow
  flag up.\<close>

definition busyState :: "unit pid_state" where
  "busyState = chargedState\<lparr>axisPID_P := (\<lambda>axis. 7), axisPID_D := (\<lambda>axis. 3),
                            axisPIDSum := (\<lambda>axis. 159)\<rparr>"

definition faultEnv :: tick_env where
  "faultEnv = commandEnv\<lparr>gyroOverflowDetected := True\<rparr>"



text \<open>The crash tick with the motors disarmed.\<close>

definition disarmedEnv :: tick_env where
  "disarmedEnv = crashEnv\<lparr>ARMED := False\<rparr>"

text \<open>A filter library whose filter state is the frequency the filter was built at, its
  state at start-up, and a profile with cutoffs at and around 499 Hz.\<close>

definition traceLib :: "nat filter_lib" where
  "traceLib =
     \<lparr> filterGetNotchQ = (\<lambda>centre cutoff. 1),
       biquadFilterInit = (\<lambda>hz looptime q kind. unat hz),
       biquadFilterInitLPF = (\<lambda>hz looptime. unat hz),
       pt1FilterInit = (\<lambda>hz period. unat hz),
       firFilterDenoiseInit = (\<lambda>hz looptime. unat hz),
       filterApply = (\<lambda>fn st x. (x, st)) \<rparr>"

definition traceState :: "nat pid_state" where
  "traceState =
     \<lparr> axisPID_P = (\<lambda>axis. 0), axisPID_I = (\<lambda>axis. 0), axisPID_D = (\<lambda>axis. 0),
       axisPIDSum = (\<lambda>axis. 0), inCrashRecoveryMode = False,
       previousSetpoint = (\<lambda>axis. 0), previousRateError = (\<lambda>axis. 0),
       crashDetectedAtUs = 0, previousTimeUs = 0,
       dtermFilterNotch = (\<lambda>axis. 0), dtermFilterLpf = (\<lambda>axis. 0), ptermYawFilter = 0,
       beeper = False \<rparr>"

definition edgeProfile :: pidProfile where
  "edgeProfile = resetPidProfile\<lparr>dterm_lpf_hz := 499, yaw_lpf_hz := 500, dterm_notch_hz := 600\<rparr>"

text \<open>Two requests for the acceleration limiter: a rate of \<open>0.1f\<close> and a rate of 500 on
  every axis.\<close>

definition nudgeEnv :: tick_env where
  "nudgeEnv = restEnv\<lparr>getSetpointRate := (\<lambda>axis. f32 (1 / 10))\<rparr>"

definition jumpEnv :: tick_env where
  "jumpEnv = restEnv\<lparr>getSetpointRate := (\<lambda>axis. 500)\<rparr>"

section \<open>Properties\<close>

subsection \<open>The helpers\<close>

lemma ABS_abs: "ABS x = \<bar>x\<bar>"
  by (auto simp: ABS_def abs_if)

lemma MIN_c_min: "MIN_c a b = min a b"
  by (auto simp: MIN_c_def min_def)

lemma MAX_c_max: "MAX_c a b = max a b"
  by (auto simp: MAX_c_def max_def)


lemma constrainf_range: "low \<le> high \<Longrightarrow> low \<le> constrainf a low high \<and> constrainf a low high \<le> high"
  by (auto simp: constrainf_def)

lemma unsigned_real_nonneg: "0 \<le> (unsigned w :: real)"
  using of_nat_0_le_iff [of "unat w", where 'a = real] by simp

lemma pidController_unfold:
  "pidController lib cfg pidProfile angleTrim env currentTimeUs s =
     pidAxis lib cfg pidProfile angleTrim env currentTimeUs
       (elapsed currentTimeUs (previousTimeUs s)) FD_YAW
    (pidAxis lib cfg pidProfile angleTrim env currentTimeUs
       (elapsed currentTimeUs (previousTimeUs s)) FD_PITCH
    (pidAxis lib cfg pidProfile angleTrim env currentTimeUs
       (elapsed currentTimeUs (previousTimeUs s)) FD_ROLL
    (s\<lparr>previousTimeUs := currentTimeUs\<rparr>)))"
  by (simp add: pidController_def Let_def)

subsection \<open>Rounding\<close>

lemma bitlen_numeral_eval:
  "bitlen 1 = 1"
  "bitlen (numeral (Num.Bit0 n)) = bitlen (numeral n) + 1"
  "bitlen (numeral (Num.Bit1 n)) = bitlen (numeral n) + 1"
proof -
  show "bitlen 1 = 1"
    by (subst compute_bitlen) simp
  have "numeral (Num.Bit0 n) div (2::int) = numeral n"
    by simp
  then show "bitlen (numeral (Num.Bit0 n)) = bitlen (numeral n) + 1"
    by (subst compute_bitlen) simp
  have "numeral (Num.Bit1 n) div (2::int) = numeral n"
    by simp
  then show "bitlen (numeral (Num.Bit1 n)) = bitlen (numeral n) + 1"
    by (subst compute_bitlen) simp
qed

lemma roundEven_error: "\<bar>of_int (roundEven r) - r\<bar> \<le> 1 / 2"
proof -
  have "of_int \<lfloor>r\<rfloor> \<le> r" "r < of_int \<lfloor>r\<rfloor> + 1"
    by linarith+
  then show ?thesis
    by (auto simp: roundEven_def Let_def)
qed

lemma roundEven_nonneg: "0 \<le> r \<Longrightarrow> 0 \<le> roundEven r"
  by (auto simp: roundEven_def Let_def)

lemma ilog2_lower:
  assumes "0 < x"
  shows "2 powi (ilog2 x) \<le> x"
proof (cases "1 \<le> x")
  case True
  then have pos: "0 < \<lfloor>x\<rfloor>"
    by linarith
  have nn: "0 \<le> bitlen \<lfloor>x\<rfloor> - 1"
    using pos by (auto simp: bitlen_alt_def)
  have "(2::int) ^ nat (bitlen \<lfloor>x\<rfloor> - 1) \<le> \<lfloor>x\<rfloor>"
    using bitlen_bounds [OF pos] by simp
  then have "real_of_int (2 ^ nat (bitlen \<lfloor>x\<rfloor> - 1)) \<le> x"
    by (simp only: le_floor_iff)
  then have "(2::real) ^ nat (bitlen \<lfloor>x\<rfloor> - 1) \<le> x"
    by simp
  then show ?thesis
    using True nn by (simp add: ilog2_def power_int_nonneg_exp)
next
  case False
  define n where "n = \<lceil>1 / x\<rceil> - 1"
  have "1 < 1 / x"
    using assms False by (simp add: field_simps)
  then have pos: "0 < n"
    unfolding n_def by linarith
  have "n < 2 ^ nat (bitlen n)"
    using bitlen_bounds [OF pos] by simp
  then have "\<lceil>1 / x\<rceil> \<le> 2 ^ nat (bitlen n)"
    unfolding n_def by simp
  then have "1 / x \<le> real_of_int (2 ^ nat (bitlen n))"
    by (simp only: ceiling_le_iff)
  then have "1 / x \<le> 2 ^ nat (bitlen n)"
    by simp
  then have "1 / 2 ^ nat (bitlen n) \<le> x"
    using assms by (simp add: field_simps)
  moreover have "2 powi (- bitlen n) = (1::real) / 2 ^ nat (bitlen n)"
    using bitlen_nonneg [of n] by (simp add: power_int_minus power_int_nonneg_exp field_simps)
  ultimately show ?thesis
    using False by (simp add: ilog2_def n_def)
qed

lemma f32_nonneg: "0 \<le> x \<Longrightarrow> 0 \<le> f32 x"
  by (simp add: f32_def Let_def roundEven_nonneg)

lemma f32_error: "\<bar>f32 x - x\<bar> \<le> \<bar>x\<bar> / 2 ^ 24 + 1 / 2 ^ 150"
proof (cases "x = 0")
  case True
  then show ?thesis
    by (simp add: f32_def)
next
  case False
  define e' where "e' = max (ilog2 \<bar>x\<bar>) (- 126)"
  define u :: real where "u = 2 powi (e' - 23)"
  have upos: "0 < u"
    by (simp add: u_def)
  have inv: "2 powi (- (e' - 23)) = 1 / u"
    by (simp only: u_def power_int_minus inverse_eq_divide)
  have "f32 x = of_int (roundEven (x * 2 powi (- (e' - 23)))) * 2 powi (e' - 23)"
    using False by (simp only: f32_def Let_def e'_def if_False)
  then have val: "f32 x = of_int (roundEven (x / u)) * u"
    by (simp only: inv u_def [symmetric] times_divide_eq_right mult_1_right)
  have "\<bar>f32 x - x\<bar> = u * \<bar>of_int (roundEven (x / u)) - x / u\<bar>"
  proof -
    have "f32 x - x = u * (of_int (roundEven (x / u)) - x / u)"
      using upos by (simp add: val field_simps)
    then show ?thesis
      using upos by (simp add: abs_mult)
  qed
  also have "\<dots> \<le> u * (1 / 2)"
    using upos roundEven_error [of "x / u"] by (intro mult_left_mono) simp_all
  finally have half: "\<bar>f32 x - x\<bar> \<le> u / 2"
    by simp
  have split: "u / 2 = 2 powi e' / 2 ^ 24"
    by (simp add: u_def power_int_diff)
  show ?thesis
  proof (cases "- 126 \<le> ilog2 \<bar>x\<bar>")
    case True
    then have "e' = ilog2 \<bar>x\<bar>"
      by (simp add: e'_def)
    then have "2 powi e' \<le> \<bar>x\<bar>"
      using ilog2_lower [of "\<bar>x\<bar>"] False by simp
    then have "u / 2 \<le> \<bar>x\<bar> / 2 ^ 24"
      unfolding split by (simp add: divide_right_mono)
    with half have "\<bar>f32 x - x\<bar> \<le> \<bar>x\<bar> / 2 ^ 24"
      by (rule order_trans)
    also have "\<dots> \<le> \<bar>x\<bar> / 2 ^ 24 + 1 / 2 ^ 150"
      by simp
    finally show ?thesis .
  next
    case False
    then have "e' = - 126"
      by (simp add: e'_def)
    then have "u / 2 = 1 / 2 ^ 150"
      unfolding split by (simp add: power_int_minus field_simps)
    with half have "\<bar>f32 x - x\<bar> \<le> 1 / 2 ^ 150"
      by simp
    also have "\<dots> \<le> \<bar>x\<bar> / 2 ^ 24 + 1 / 2 ^ 150"
      by simp
    finally show ?thesis .
  qed
qed

lemmas f32_eval = f32_def ilog2_def roundEven_def Let_def bitlen_numeral_eval power_int_minus

lemma f32_micro: "f32 0.000001 = 8796093 / 2 ^ 43"
  by (simp add: f32_eval)

lemma dT_1000: "dT (pidSetTargetLooptime 1000 cfg) = 8589935 / 2 ^ 33"
  by (simp add: pidSetTargetLooptime_def f32_micro) (simp add: f32_eval)


lemma nyquist_1000: "pidFrequencyNyquist (pidSetTargetLooptime 1000 cfg) = 499"
  by (simp add: pidFrequencyNyquist_def dT_1000) (simp add: f32_eval)

subsection \<open>Derived configurations\<close>

lemma pidInitFilters_rest:
  "dT (fst (pidInitFilters lib p cs)) = dT (fst cs)"
  "targetPidLooptime (fst (pidInitFilters lib p cs)) = targetPidLooptime (fst cs)"
  "pidStabilisationEnabled (fst (pidInitFilters lib p cs)) = pidStabilisationEnabled (fst cs)"
  "itermAccelerator (fst (pidInitFilters lib p cs)) = itermAccelerator (fst cs)"
  by (simp_all add: pidInitFilters_def initYawLpf_def initDtermLpf_def initNotch_def Let_def)

lemma configOf_unfold:
  "configOf p looptime
     = pidInitConfig unitScales p
         (fst (pidInitFilters idLib p (pidSetTargetLooptime looptime priorConfig, bootState)))"
  by (simp add: configOf_def pidInit_def Let_def)

lemma configOf_fields:
  "itermLimit (configOf p looptime) = real (unat (profile_itermLimit p))"
  "Kp (configOf p looptime) axis = real (unat (pid_P (pid p (pidOfAxis axis))))"
  "Ki (configOf p looptime) axis = real (unat (pid_I (pid p (pidOfAxis axis))))"
  "Kd (configOf p looptime) axis = real (unat (pid_D (pid p (pidOfAxis axis))))"
  "levelGain (configOf p looptime) = real (unat (pid_P (pid p PID_LEVEL))) / 10"
  "horizonGain (configOf p looptime) = real (unat (pid_I (pid p PID_LEVEL))) / 10"
  "horizonTransition (configOf p looptime) = real (unat (pid_D (pid p PID_LEVEL)))"
  "horizonTiltExpertMode (configOf p looptime) = horizon_tilt_expert_mode p"
  "horizonCutoffDegrees (configOf p looptime)
     = real_of_int (175 - int (unat (horizon_tilt_effect p))) * 1.8"
  "dtermSetpointWeight (configOf p looptime) = real (unat (profile_dtermSetpointWeight p)) / 127"
  "ITermWindupPointInv (configOf p looptime)
     = 1 / (1 - real (unat (itermWindupPointPercent p)) / 100)"
  "crashTimeLimitUs (configOf p looptime) = int (unat (crash_time p)) * 1000"
  "crashTimeDelayUs (configOf p looptime) = int (unat (crash_delay p)) * 1000"
  "crashRecoveryRate (configOf p looptime) = real (unat (crash_recovery_rate p))"
  "crashGyroThreshold (configOf p looptime) = real (unat (crash_gthreshold p))"
  "crashDtermThreshold (configOf p looptime) = real (unat (crash_dthreshold p))"
  "crashSetpointThreshold (configOf p looptime) = real (unat (crash_setpoint_threshold p))"
  "itermAccelerator (configOf p looptime) = 1"
  "dT (configOf p looptime) = dT (pidSetTargetLooptime looptime priorConfig)"
  "maxVelocity (configOf p looptime) axis
     = (if axis = FD_YAW
        then f32 (f32 (real (unat (yawRateAccelLimit p) * 100))
                   * dT (pidSetTargetLooptime looptime priorConfig))
        else f32 (f32 (real (unat (rateAccelLimit p) * 100))
                   * dT (pidSetTargetLooptime looptime priorConfig)))"
  by (simp_all add: configOf_unfold pidInitConfig_def Let_def unitScales_def pidInitFilters_rest)
     (simp_all add: pidSetTargetLooptime_def priorConfig_def)

lemma configOf_filters:
  "looptime \<noteq> 0 \<Longrightarrow>
   dtermNotchFilterApplyFn (configOf p looptime)
     = (if dTermNotchHz p (pidFrequencyNyquist (pidSetTargetLooptime looptime priorConfig)) \<noteq> 0
           \<and> dterm_notch_cutoff p \<noteq> 0
        then biquadFilterApply else nullFilterApply)"
  "looptime \<noteq> 0 \<Longrightarrow>
   ptermYawFilterApplyFn (configOf p looptime)
     = (if yaw_lpf_hz p = 0
           \<or> unat (yaw_lpf_hz p)
               > unat (pidFrequencyNyquist (pidSetTargetLooptime looptime priorConfig))
        then nullFilterApply else pt1FilterApply)"
  by (simp_all add: configOf_unfold pidInitConfig_def Let_def pidInitFilters_def initYawLpf_def
      initDtermLpf_def initNotch_def pidSetTargetLooptime_def)

lemma stabilised_fields:
  "pidStabilisationEnabled (pidStabilisationState PID_STABILISATION_ON cfg)"
  "itermLimit (pidStabilisationState st cfg) = itermLimit cfg"
  "Kp (pidStabilisationState st cfg) = Kp cfg"
  "Ki (pidStabilisationState st cfg) = Ki cfg"
  "Kd (pidStabilisationState st cfg) = Kd cfg"
  "levelGain (pidStabilisationState st cfg) = levelGain cfg"
  "horizonGain (pidStabilisationState st cfg) = horizonGain cfg"
  "horizonTransition (pidStabilisationState st cfg) = horizonTransition cfg"
  "horizonTiltExpertMode (pidStabilisationState st cfg) = horizonTiltExpertMode cfg"
  "horizonCutoffDegrees (pidStabilisationState st cfg) = horizonCutoffDegrees cfg"
  "dtermSetpointWeight (pidStabilisationState st cfg) = dtermSetpointWeight cfg"
  "ITermWindupPointInv (pidStabilisationState st cfg) = ITermWindupPointInv cfg"
  "crashTimeLimitUs (pidStabilisationState st cfg) = crashTimeLimitUs cfg"
  "crashTimeDelayUs (pidStabilisationState st cfg) = crashTimeDelayUs cfg"
  "crashRecoveryRate (pidStabilisationState st cfg) = crashRecoveryRate cfg"
  "crashGyroThreshold (pidStabilisationState st cfg) = crashGyroThreshold cfg"
  "crashDtermThreshold (pidStabilisationState st cfg) = crashDtermThreshold cfg"
  "crashSetpointThreshold (pidStabilisationState st cfg) = crashSetpointThreshold cfg"
  "itermAccelerator (pidStabilisationState st cfg) = itermAccelerator cfg"
  "dT (pidStabilisationState st cfg) = dT cfg"
  "maxVelocity (pidStabilisationState st cfg) = maxVelocity cfg"
  "dtermNotchFilterApplyFn (pidStabilisationState st cfg) = dtermNotchFilterApplyFn cfg"
  "dtermLpfApplyFn (pidStabilisationState st cfg) = dtermLpfApplyFn cfg"
  "ptermYawFilterApplyFn (pidStabilisationState st cfg) = ptermYawFilterApplyFn cfg"
  by (simp_all add: pidStabilisationState_def)

lemma default_maxVelocity:
  "maxVelocity (configOf resetPidProfile 1000) FD_ROLL = 0"
  "maxVelocity (configOf resetPidProfile 1000) FD_PITCH = 0"
  "maxVelocity (configOf resetPidProfile 1000) FD_YAW = 10"
  by (simp_all add: configOf_fields resetPidProfile_def dT_1000) (simp_all add: f32_eval)

lemma activeConfig_maxVelocity:
  "maxVelocity activeConfig FD_ROLL = 0"
  "maxVelocity activeConfig FD_PITCH = 0"
  "maxVelocity activeConfig FD_YAW = 10"
  by (simp_all only: activeConfig_def stabilised_fields default_maxVelocity)

lemma activeConfig_fields:
  "pidStabilisationEnabled activeConfig"
  "itermLimit activeConfig = 150"
  "Ki activeConfig FD_ROLL = 40"
  "Kp activeConfig FD_ROLL = 40"
  "dT activeConfig = 8589935 / 2 ^ 33"
  "itermAccelerator activeConfig = 1"
  "ITermWindupPointInv activeConfig = 2"
  "crashTimeDelayUs activeConfig = 0"
  by (simp_all only: activeConfig_def stabilised_fields configOf_fields dT_1000)
     (simp_all add: resetPidProfile_def mkPid8_def)

subsection \<open>The integral accumulator\<close>

lemma itermStep_other:
  "axis' \<noteq> axis \<Longrightarrow> axisPID_I (itermStep cfg env axis e s) axis' = axisPID_I s axis'"
  by (simp add: itermStep_def Let_def)


lemma ptermStep_I: "axisPID_I (ptermStep lib cfg env axis e s) = axisPID_I s"
  by (simp add: ptermStep_def Let_def)

lemma crashDetect_I: "axisPID_I (crashDetect cfg p env t axis c dt e s) = axisPID_I s"
  by (simp add: crashDetect_def Let_def)

lemma dtermStep_I: "axisPID_I (dtermStep lib cfg p env t dt axis sp e s) = axisPID_I s"
  by (simp add: dtermStep_def Let_def crashDetect_I)

lemma accelerationLimit_I: "axisPID_I (snd (accelerationLimit cfg axis sp s)) = axisPID_I s"
  by (simp add: accelerationLimit_def Let_def)

lemma axisSetpoint_I: "axisPID_I (snd (axisSetpoint cfg p trim env axis s)) = axisPID_I s"
  by (simp add: axisSetpoint_def limitedSetpoint_def Let_def accelerationLimit_I)

lemma crashRecoveryExit_I: "axisPID_I (crashRecoveryExit cfg trim env t s) = axisPID_I s"
  by (simp add: crashRecoveryExit_def)

lemma crashRecovery_I_other:
  "axis' \<noteq> axis \<Longrightarrow>
   axisPID_I (snd (snd (crashRecovery cfg p trim env t axis sp e s))) axis' = axisPID_I s axis'"
  by (simp add: crashRecovery_def Let_def crashRecoveryExit_I)

lemma disableStep_I_other:
  "axis' \<noteq> axis \<Longrightarrow> axisPID_I (disableStep cfg env axis s) axis' = axisPID_I s axis'"
  by (simp add: disableStep_def)

lemma pidAxis_I_other:
  "axis' \<noteq> axis \<Longrightarrow>
   axisPID_I (pidAxis lib cfg p trim env t dt axis s) axis' = axisPID_I s axis'"
  by (simp add: pidAxis_def recovered_def Let_def disableStep_I_other dtermStep_I itermStep_other
      ptermStep_I crashRecovery_I_other axisSetpoint_I)




subsection \<open>What each step of the loop body leaves alone\<close>

lemma accelerationLimit_frame:
  "axisPID_P (snd (accelerationLimit cfg axis sp s)) = axisPID_P s"
  "axisPID_D (snd (accelerationLimit cfg axis sp s)) = axisPID_D s"
  "axisPIDSum (snd (accelerationLimit cfg axis sp s)) = axisPIDSum s"
  "inCrashRecoveryMode (snd (accelerationLimit cfg axis sp s)) = inCrashRecoveryMode s"
  "crashDetectedAtUs (snd (accelerationLimit cfg axis sp s)) = crashDetectedAtUs s"
  "axis' \<noteq> axis \<Longrightarrow> previousSetpoint (snd (accelerationLimit cfg axis sp s)) axis' = previousSetpoint s axis'"
  by (simp_all add: accelerationLimit_def Let_def)

lemma limitedSetpoint_frame:
  "axisPID_P (snd (limitedSetpoint cfg env axis s)) = axisPID_P s"
  "axisPID_I (snd (limitedSetpoint cfg env axis s)) = axisPID_I s"
  "axisPID_D (snd (limitedSetpoint cfg env axis s)) = axisPID_D s"
  "axisPIDSum (snd (limitedSetpoint cfg env axis s)) = axisPIDSum s"
  "inCrashRecoveryMode (snd (limitedSetpoint cfg env axis s)) = inCrashRecoveryMode s"
  "crashDetectedAtUs (snd (limitedSetpoint cfg env axis s)) = crashDetectedAtUs s"
  "axis' \<noteq> axis \<Longrightarrow> previousSetpoint (snd (limitedSetpoint cfg env axis s)) axis' = previousSetpoint s axis'"
  by (simp_all add: limitedSetpoint_def accelerationLimit_frame accelerationLimit_I)

lemma axisSetpoint_snd: "snd (axisSetpoint cfg p trim env axis s) = snd (limitedSetpoint cfg env axis s)"
  by (simp add: axisSetpoint_def Let_def)

lemma crashRecoveryExit_frame:
  "axisPID_P (crashRecoveryExit cfg trim env t s) = axisPID_P s"
  "axisPID_D (crashRecoveryExit cfg trim env t s) = axisPID_D s"
  "axisPIDSum (crashRecoveryExit cfg trim env t s) = axisPIDSum s"
  "previousSetpoint (crashRecoveryExit cfg trim env t s) = previousSetpoint s"
  "crashDetectedAtUs (crashRecoveryExit cfg trim env t s) = crashDetectedAtUs s"
  "inCrashRecoveryMode (crashRecoveryExit cfg trim env t s) \<Longrightarrow> inCrashRecoveryMode s"
  by (simp_all add: crashRecoveryExit_def split: if_splits)

lemma crashRecovery_frame:
  "axisPID_P (snd (snd (crashRecovery cfg p trim env t axis sp e s))) = axisPID_P s"
  "axisPID_D (snd (snd (crashRecovery cfg p trim env t axis sp e s))) = axisPID_D s"
  "axisPIDSum (snd (snd (crashRecovery cfg p trim env t axis sp e s))) = axisPIDSum s"
  "previousSetpoint (snd (snd (crashRecovery cfg p trim env t axis sp e s))) = previousSetpoint s"
  "crashDetectedAtUs (snd (snd (crashRecovery cfg p trim env t axis sp e s))) = crashDetectedAtUs s"
  by (simp_all add: crashRecovery_def Let_def crashRecoveryExit_frame)

lemma crashRecovery_stays_normal:
  "inCrashRecoveryMode (snd (snd (crashRecovery cfg p trim env t axis sp e s))) \<Longrightarrow> inCrashRecoveryMode s"
  by (auto simp: crashRecovery_def Let_def dest: crashRecoveryExit_frame(6) split: if_splits)

lemma crashRecovery_normal:
  "\<not> inCrashRecoveryMode s \<Longrightarrow> crashRecovery cfg p trim env t axis sp e s = (sp, e, s)"
  by (simp add: crashRecovery_def)

lemma ptermStep_frame:
  "axisPID_D (ptermStep lib cfg env axis e s) = axisPID_D s"
  "axisPIDSum (ptermStep lib cfg env axis e s) = axisPIDSum s"
  "previousSetpoint (ptermStep lib cfg env axis e s) = previousSetpoint s"
  "previousRateError (ptermStep lib cfg env axis e s) = previousRateError s"
  "inCrashRecoveryMode (ptermStep lib cfg env axis e s) = inCrashRecoveryMode s"
  "crashDetectedAtUs (ptermStep lib cfg env axis e s) = crashDetectedAtUs s"
  "dtermFilterNotch (ptermStep lib cfg env axis e s) = dtermFilterNotch s"
  "dtermFilterLpf (ptermStep lib cfg env axis e s) = dtermFilterLpf s"
  "axis' \<noteq> axis \<Longrightarrow> axisPID_P (ptermStep lib cfg env axis e s) axis' = axisPID_P s axis'"
  by (auto simp: ptermStep_def Let_def)

lemma itermStep_frame:
  "axisPID_P (itermStep cfg env axis e s) = axisPID_P s"
  "axisPID_D (itermStep cfg env axis e s) = axisPID_D s"
  "axisPIDSum (itermStep cfg env axis e s) = axisPIDSum s"
  "previousSetpoint (itermStep cfg env axis e s) = previousSetpoint s"
  "previousRateError (itermStep cfg env axis e s) = previousRateError s"
  "inCrashRecoveryMode (itermStep cfg env axis e s) = inCrashRecoveryMode s"
  "crashDetectedAtUs (itermStep cfg env axis e s) = crashDetectedAtUs s"
  "dtermFilterNotch (itermStep cfg env axis e s) = dtermFilterNotch s"
  "dtermFilterLpf (itermStep cfg env axis e s) = dtermFilterLpf s"
  by (simp_all add: itermStep_def Let_def)

lemma crashDetect_frame:
  "axisPID_P (crashDetect cfg p env t axis c dt e s) = axisPID_P s"
  "axisPID_D (crashDetect cfg p env t axis c dt e s) = axisPID_D s"
  "axisPIDSum (crashDetect cfg p env t axis c dt e s) = axisPIDSum s"
  "previousSetpoint (crashDetect cfg p env t axis c dt e s) = previousSetpoint s"
  by (simp_all add: crashDetect_def Let_def)

lemma dtermStep_frame:
  "axisPID_P (dtermStep lib cfg p env t dt axis sp e s) = axisPID_P s"
  "previousSetpoint (dtermStep lib cfg p env t dt axis sp e s) = previousSetpoint s"
  "axis' \<noteq> axis \<Longrightarrow> axisPID_D (dtermStep lib cfg p env t dt axis sp e s) axis' = axisPID_D s axis'"
  "axis' \<noteq> axis \<Longrightarrow> axisPIDSum (dtermStep lib cfg p env t dt axis sp e s) axis' = axisPIDSum s axis'"
  by (auto simp: dtermStep_def Let_def crashDetect_frame)

lemma disableStep_frame:
  "previousSetpoint (disableStep cfg env axis s) = previousSetpoint s"
  "inCrashRecoveryMode (disableStep cfg env axis s) = inCrashRecoveryMode s"
  "crashDetectedAtUs (disableStep cfg env axis s) = crashDetectedAtUs s"
  "axis' \<noteq> axis \<Longrightarrow> axisPID_P (disableStep cfg env axis s) axis' = axisPID_P s axis'"
  "axis' \<noteq> axis \<Longrightarrow> axisPID_D (disableStep cfg env axis s) axis' = axisPID_D s axis'"
  "axis' \<noteq> axis \<Longrightarrow> axisPIDSum (disableStep cfg env axis s) axis' = axisPIDSum s axis'"
  by (simp_all add: disableStep_def)

lemma recovered_snd_frame:
  "axisPID_P (snd (snd (recovered cfg p trim env t axis s))) = axisPID_P s"
  "axisPID_D (snd (snd (recovered cfg p trim env t axis s))) = axisPID_D s"
  "axisPIDSum (snd (snd (recovered cfg p trim env t axis s))) = axisPIDSum s"
  "previousSetpoint (snd (snd (recovered cfg p trim env t axis s)))
     = previousSetpoint (snd (limitedSetpoint cfg env axis s))"
  by (simp_all add: recovered_def Let_def crashRecovery_frame axisSetpoint_snd limitedSetpoint_frame)

lemma pidAxis_other:
  assumes "axis' \<noteq> axis"
  shows "axisPID_P (pidAxis lib cfg p trim env t dt axis s) axis' = axisPID_P s axis'"
    and "axisPID_D (pidAxis lib cfg p trim env t dt axis s) axis' = axisPID_D s axis'"
    and "axisPIDSum (pidAxis lib cfg p trim env t dt axis s) axis' = axisPIDSum s axis'"
    and "previousSetpoint (pidAxis lib cfg p trim env t dt axis s) axis' = previousSetpoint s axis'"
  using assms
  by (simp_all add: pidAxis_def Let_def disableStep_frame dtermStep_frame itermStep_frame
      ptermStep_frame recovered_snd_frame limitedSetpoint_frame)

lemma pidAxis_disabled:
  assumes "\<not> pidStabilisationEnabled cfg \<or> gyroOverflowDetected env"
  shows "axisPID_P (pidAxis lib cfg p trim env t dt axis s) axis = 0"
    and "axisPID_I (pidAxis lib cfg p trim env t dt axis s) axis = 0"
    and "axisPID_D (pidAxis lib cfg p trim env t dt axis s) axis = 0"
    and "axisPIDSum (pidAxis lib cfg p trim env t dt axis s) axis = 0"
  using assms by (simp_all add: pidAxis_def disableStep_def Let_def)

lemma pidAxis_previousSetpoint:
  "previousSetpoint (pidAxis lib cfg p trim env t dt axis s)
     = previousSetpoint (snd (limitedSetpoint cfg env axis s))"
  by (simp add: pidAxis_def Let_def disableStep_frame dtermStep_frame itermStep_frame
      ptermStep_frame recovered_snd_frame)

lemma pidAxes_disabled:
  assumes "\<not> pidStabilisationEnabled cfg \<or> gyroOverflowDetected env"
  shows "axisPID_P (pidAxis lib cfg p trim env t dt FD_YAW
            (pidAxis lib cfg p trim env t dt FD_PITCH
              (pidAxis lib cfg p trim env t dt FD_ROLL s))) axis = 0"
    and "axisPID_I (pidAxis lib cfg p trim env t dt FD_YAW
            (pidAxis lib cfg p trim env t dt FD_PITCH
              (pidAxis lib cfg p trim env t dt FD_ROLL s))) axis = 0"
    and "axisPID_D (pidAxis lib cfg p trim env t dt FD_YAW
            (pidAxis lib cfg p trim env t dt FD_PITCH
              (pidAxis lib cfg p trim env t dt FD_ROLL s))) axis = 0"
    and "axisPIDSum (pidAxis lib cfg p trim env t dt FD_YAW
            (pidAxis lib cfg p trim env t dt FD_PITCH
              (pidAxis lib cfg p trim env t dt FD_ROLL s))) axis = 0"
  by (cases axis; simp add: pidAxis_other pidAxis_I_other pidAxis_disabled [OF assms])+

subsection \<open>The integral update\<close>

lemma recovered_ITerm:
  "axisPID_I (snd (snd (recovered cfg p trim env t axis s))) axis
     = (if inCrashRecoveryMode s \<and> cmpTimeUs t (crashDetectedAtUs s) > crashTimeDelayUs cfg
        then 0 else axisPID_I s axis)"
  by (simp add: recovered_def Let_def crashRecovery_def crashRecoveryExit_I axisSetpoint_snd
      limitedSetpoint_frame)

lemma pidAxis_I_own:
  assumes "pidStabilisationEnabled cfg" and "\<not> gyroOverflowDetected env"
  shows "axisPID_I (pidAxis lib cfg p trim env t dt axis s) axis
           = axisPID_I (itermStep cfg env axis (fst (snd (recovered cfg p trim env t axis s)))
                          (snd (snd (recovered cfg p trim env t axis s)))) axis"
  using assms
  by (simp add: pidAxis_def Let_def disableStep_def dtermStep_I itermStep_def ptermStep_I)

lemma itermStep_value:
  "axisPID_I (itermStep cfg env axis e s) axis
     = (if \<not> mixerIsOutputSaturated env axis e
           \<or> \<bar>constrainf (axisPID_I s axis + Ki cfg axis * e * dynCi cfg env)
                 (- itermLimit cfg) (itermLimit cfg)\<bar> < \<bar>axisPID_I s axis\<bar>
        then constrainf (axisPID_I s axis + Ki cfg axis * e * dynCi cfg env)
               (- itermLimit cfg) (itermLimit cfg)
        else axisPID_I s axis)"
  by (simp add: itermStep_def Let_def ABS_abs)







text \<open>
  C5. On an axis, with stabilisation on and no gyro overflow, let \<open>ITerm\<close> be the
  accumulator the integral update reads (the stored one, or zero once crash recovery has
  passed its delay), \<open>errorRate\<close> the rate error of the axis and \<open>ITermNew\<close> the candidate
  \<open>ITerm + Ki * errorRate * dynCi\<close> clamped to plus or minus \<open>itermLimit\<close>. The accumulator
  after the loop body is the candidate if the mixer reports the output not saturated or
  the candidate is smaller in magnitude than \<open>ITerm\<close>, and is \<open>ITerm\<close> otherwise; so under
  saturation it stays exactly unchanged when the candidate is not smaller, and it never
  grows in magnitude.
\<close>

theorem integral_anti_windup:
  assumes "pidStabilisationEnabled cfg" and "\<not> gyroOverflowDetected env"
  shows "let r = recovered cfg pidProfile angleTrim env currentTimeUs axis s;
             errorRate = fst (snd r);
             ITerm = axisPID_I (snd (snd r)) axis;
             ITermNew = constrainf
               (ITerm + Ki cfg axis * errorRate
                  * (MIN_c ((1 - getMotorMixRange env) * ITermWindupPointInv cfg) 1
                       * dT cfg * itermAccelerator cfg))
               (- itermLimit cfg) (itermLimit cfg);
             saturated = mixerIsOutputSaturated env axis errorRate;
             result = axisPID_I (pidAxis lib cfg pidProfile angleTrim env currentTimeUs deltaT axis s) axis
         in result = (if \<not> saturated \<or> \<bar>ITermNew\<bar> < \<bar>ITerm\<bar> then ITermNew else ITerm)
            \<and> (saturated \<and> \<not> \<bar>ITermNew\<bar> < \<bar>ITerm\<bar> \<longrightarrow> result = ITerm)
            \<and> (saturated \<longrightarrow> \<bar>result\<bar> \<le> \<bar>ITerm\<bar>)
            \<and> ITerm = (if inCrashRecoveryMode s
                          \<and> cmpTimeUs currentTimeUs (crashDetectedAtUs s) > crashTimeDelayUs cfg
                        then 0 else axisPID_I s axis)"
  unfolding Let_def pidAxis_I_own [OF assms] itermStep_value dynCi_def [symmetric]
  by (simp add: recovered_ITerm)

lemma saturated_recovered:
  "recovered activeConfig resetPidProfile noTrim saturatedEnv 1000 FD_ROLL
     (bootState\<lparr>axisPID_I := (\<lambda>axis. 5)\<rparr>) = (100, 100, bootState\<lparr>axisPID_I := (\<lambda>axis. 5)\<rparr>)"
  by (simp add: recovered_def axisSetpoint_def limitedSetpoint_def crashRecovery_def Let_def
      activeConfig_fields activeConfig_maxVelocity saturatedEnv_def restEnv_def FLIGHT_MODE_def bootState_def)

theorem integral_anti_windup_witness:
  "pidStabilisationEnabled activeConfig \<and> \<not> gyroOverflowDetected saturatedEnv
   \<and> axisPID_I (pidAxis idLib activeConfig resetPidProfile noTrim saturatedEnv 1000 (1 / 1000)
                  FD_ROLL (bootState\<lparr>axisPID_I := (\<lambda>axis. 5)\<rparr>)) FD_ROLL = 5"
proof -
  have a: "pidStabilisationEnabled activeConfig"
    by (rule activeConfig_fields)
  have b: "\<not> gyroOverflowDetected saturatedEnv"
    by (simp add: saturatedEnv_def restEnv_def)
  have c: "mixerIsOutputSaturated saturatedEnv FD_ROLL 100" "getMotorMixRange saturatedEnv = 0"
    by (simp_all add: saturatedEnv_def restEnv_def)
  show ?thesis
    using a b integral_anti_windup [OF a b, of resetPidProfile noTrim 1000 FD_ROLL
        "bootState\<lparr>axisPID_I := (\<lambda>axis. 5)\<rparr>" idLib "1 / 1000"]
    by (simp add: Let_def saturated_recovered activeConfig_fields c MIN_c_min constrainf_def)
qed

subsection \<open>Stabilisation off and gyro overflow\<close>

lemma recovered_plain:
  assumes "\<not> inCrashRecoveryMode s" and "maxVelocity cfg axis = 0" and "flightModeFlags env = 0"
  shows "recovered cfg p trim env t axis s
           = (getSetpointRate env axis, getSetpointRate env axis - gyroADCf env axis, s)"
  using assms
  by (simp add: recovered_def axisSetpoint_def limitedSetpoint_def crashRecovery_def Let_def
      FLIGHT_MODE_def)

lemma pidAxis_P_own:
  assumes "pidStabilisationEnabled cfg" and "\<not> gyroOverflowDetected env" and "axis \<noteq> FD_YAW"
  shows "axisPID_P (pidAxis lib cfg p trim env t dt axis s) axis
           = Kp cfg axis * fst (snd (recovered cfg p trim env t axis s))
               * getThrottlePIDAttenuation env"
  using assms
  by (simp add: pidAxis_def Let_def disableStep_def dtermStep_frame itermStep_frame ptermStep_def)

text \<open>
  C4. If stabilisation is disabled or the gyro reports an overflow during a tick, then
  after the tick \<open>axisPID_P\<close>, \<open>axisPID_I\<close>, \<open>axisPID_D\<close> and \<open>axisPIDSum\<close> are zero on all
  three axes, whatever the state and the timestamps were before and whatever the tick
  computed.
\<close>

theorem disabled_outputs_zero:
  assumes "\<not> pidStabilisationEnabled cfg \<or> gyroOverflowDetected env"
  shows "\<forall>axis. axisPID_P (pidController lib cfg pidProfile angleTrim env currentTimeUs s) axis = 0
              \<and> axisPID_I (pidController lib cfg pidProfile angleTrim env currentTimeUs s) axis = 0
              \<and> axisPID_D (pidController lib cfg pidProfile angleTrim env currentTimeUs s) axis = 0
              \<and> axisPIDSum (pidController lib cfg pidProfile angleTrim env currentTimeUs s) axis = 0"
  by (simp add: pidController_unfold pidAxes_disabled [OF assms])

text \<open>
  A tick with stabilisation on, gains and a rate error of 100 on every axis, from a state
  whose outputs are not zero: with the overflow flag up all outputs end as zero, and the
  same tick without the flag ends with a roll P term of 4000. Without the flag and with
  stabilisation off, as \<open>pidInit\<close> leaves it, all outputs end as zero too.
\<close>

theorem disabled_outputs_zero_witness:
  "pidStabilisationEnabled activeConfig
   \<and> gyroOverflowDetected faultEnv
   \<and> axisPID_P busyState FD_ROLL = 7 \<and> axisPID_I busyState FD_ROLL = 149
   \<and> axisPID_D busyState FD_ROLL = 3 \<and> axisPIDSum busyState FD_ROLL = 159
   \<and> (\<forall>axis. axisPID_P (pidController idLib activeConfig resetPidProfile noTrim faultEnv 1000
                   busyState) axis = 0
          \<and> axisPID_I (pidController idLib activeConfig resetPidProfile noTrim faultEnv 1000
                   busyState) axis = 0
          \<and> axisPID_D (pidController idLib activeConfig resetPidProfile noTrim faultEnv 1000
                   busyState) axis = 0
          \<and> axisPIDSum (pidController idLib activeConfig resetPidProfile noTrim faultEnv 1000
                   busyState) axis = 0)
   \<and> axisPID_P (pidController idLib activeConfig resetPidProfile noTrim commandEnv 1000
                  busyState) FD_ROLL = 4000
   \<and> \<not> pidStabilisationEnabled (configOf resetPidProfile 1000)
   \<and> \<not> gyroOverflowDetected commandEnv
   \<and> (\<forall>axis. axisPID_P (pidController idLib (configOf resetPidProfile 1000) resetPidProfile
                   noTrim commandEnv 1000 busyState) axis = 0
          \<and> axisPID_I (pidController idLib (configOf resetPidProfile 1000) resetPidProfile
                   noTrim commandEnv 1000 busyState) axis = 0
          \<and> axisPID_D (pidController idLib (configOf resetPidProfile 1000) resetPidProfile
                   noTrim commandEnv 1000 busyState) axis = 0
          \<and> axisPIDSum (pidController idLib (configOf resetPidProfile 1000) resetPidProfile
                   noTrim commandEnv 1000 busyState) axis = 0)"
proof -
  have a: "gyroOverflowDetected faultEnv"
    by (simp add: faultEnv_def)
  have off: "\<not> pidStabilisationEnabled (configOf resetPidProfile 1000)"
    by (simp add: configOf_unfold pidInitConfig_def Let_def pidInitFilters_rest
        pidSetTargetLooptime_def priorConfig_def)
  have b: "pidStabilisationEnabled activeConfig"
    by (rule activeConfig_fields)
  have c: "axisPID_P busyState FD_ROLL = 7 \<and> axisPID_I busyState FD_ROLL = 149
           \<and> axisPID_D busyState FD_ROLL = 3 \<and> axisPIDSum busyState FD_ROLL = 159"
    by (simp add: busyState_def chargedState_def)
  have d: "\<not> gyroOverflowDetected commandEnv"
    by (simp add: commandEnv_def restEnv_def)
  have e: "recovered activeConfig resetPidProfile noTrim commandEnv 1000 FD_ROLL
             (busyState\<lparr>previousTimeUs := 1000\<rparr>) = (100, 100, busyState\<lparr>previousTimeUs := 1000\<rparr>)"
    by (subst recovered_plain)
       (simp_all add: activeConfig_maxVelocity commandEnv_def restEnv_def busyState_def
          chargedState_def bootState_def)
  have g: "getThrottlePIDAttenuation commandEnv = 1"
    by (simp add: commandEnv_def restEnv_def)
  have f: "axisPID_P (pidController idLib activeConfig resetPidProfile noTrim commandEnv 1000
                        busyState) FD_ROLL = 4000"
    by (simp add: pidController_unfold pidAxis_other pidAxis_P_own [OF b d] e activeConfig_fields g)
  show ?thesis
    using a b c d f off
      disabled_outputs_zero [OF disjI2 [OF a], of idLib activeConfig resetPidProfile
        noTrim 1000 busyState]
      disabled_outputs_zero [OF disjI1 [OF off], of idLib resetPidProfile noTrim commandEnv
        1000 busyState]
    by blast
qed

subsection \<open>The strength of horizon leveling\<close>

lemma constrainf_unit: "constrainf x 0 1 = max 0 (min 1 x)"
  by (simp add: constrainf_def max_def min_def)

lemma currentInclination_eq:
  "currentInclination env
     = real_of_int (max \<bar>sint (attitude_raw env FD_ROLL)\<bar> \<bar>sint (attitude_raw env FD_PITCH)\<bar>) / 10"
  by (simp add: currentInclination_def ABS_abs MAX_c_max)

text \<open>
  C9, as the code has it. In the expert sub-mode the strength is
  \<open>(horizonCutoffDegrees - currentInclination) / horizonCutoffDegrees\<close> clamped to the unit
  interval when both \<open>horizonTransition\<close> and \<open>horizonCutoffDegrees\<close> are positive, and zero
  when \<open>horizonTransition\<close> is not positive; in the limited sub-mode it is twice that quotient
  clamped to the unit interval when \<open>horizonCutoffDegrees\<close> is positive; in both sub-modes a
  cutoff that is not positive gives zero. The inclination is the larger of the magnitudes
  of roll and pitch, in degrees.
\<close>

theorem horizon_level_strength:
  "(horizonTiltExpertMode cfg \<noteq> 0 \<and> horizonTransition cfg > 0 \<and> horizonCutoffDegrees cfg > 0 \<longrightarrow>
      calcHorizonLevelStrength cfg env
        = max 0 (min 1 ((horizonCutoffDegrees cfg - currentInclination env) / horizonCutoffDegrees cfg)))
   \<and> (horizonTiltExpertMode cfg \<noteq> 0 \<and> \<not> horizonTransition cfg > 0 \<longrightarrow>
      calcHorizonLevelStrength cfg env = 0)
   \<and> (horizonTiltExpertMode cfg = 0 \<and> horizonCutoffDegrees cfg > 0 \<longrightarrow>
      calcHorizonLevelStrength cfg env
        = max 0 (min 1 (2 * (horizonCutoffDegrees cfg - currentInclination env) / horizonCutoffDegrees cfg)))
   \<and> (horizonCutoffDegrees cfg \<le> 0 \<longrightarrow> calcHorizonLevelStrength cfg env = 0)
   \<and> currentInclination env
        = real_of_int (max \<bar>sint (attitude_raw env FD_ROLL)\<bar> \<bar>sint (attitude_raw env FD_PITCH)\<bar>) / 10"
  by (simp add: calcHorizonLevelStrength_def Let_def constrainf_unit currentInclination_eq
      mult.commute)

lemma activeConfig_horizon:
  "horizonTiltExpertMode activeConfig = 0"
  "horizonCutoffDegrees activeConfig = 81"
  "horizonGain activeConfig = 5"
  "levelGain activeConfig = 5"
  by (simp_all only: activeConfig_def stabilised_fields configOf_fields)
     (simp_all add: resetPidProfile_def mkPid8_def)

lemma tiltedEnv_inclination: "currentInclination tiltedEnv = 324 / 5"
  by (simp add: currentInclination_eq tiltedEnv_def restEnv_def)

theorem horizon_level_strength_witness:
  "horizonTiltExpertMode activeConfig = 0 \<and> horizonCutoffDegrees activeConfig > 0
   \<and> calcHorizonLevelStrength activeConfig tiltedEnv = 2 / 5
   \<and> currentInclination tiltedEnv = 324 / 5"
  using horizon_level_strength [of activeConfig tiltedEnv]
  by (simp add: activeConfig_horizon tiltedEnv_inclination)

lemma expertConfig_fields:
  "horizonTiltExpertMode expertConfig = 1"
  "horizonCutoffDegrees expertConfig = 81"
  "horizonTransition expertConfig = 0"
  by (simp_all only: expertConfig_def configOf_fields)
     (simp_all add: expertProfile_def resetPidProfile_def mkPid8_def)

lemma restEnv_inclination: "currentInclination restEnv = 0"
  by (simp add: currentInclination_eq restEnv_def)

text \<open>
  C9 as stated fails in the expert sub-mode when \<open>horizonTransition\<close> (the D value of the
  level PID) is zero: at a level attitude with a cutoff of 81 degrees the code yields
  strength 0, the formula of the claim 1.
\<close>

theorem horizon_level_strength_counterexample:
  "horizonTiltExpertMode expertConfig \<noteq> 0
   \<and> calcHorizonLevelStrength expertConfig restEnv = 0
   \<and> constrainf ((horizonCutoffDegrees expertConfig - currentInclination restEnv)
                    / horizonCutoffDegrees expertConfig) 0 1 = 1"
  by (simp add: calcHorizonLevelStrength_def Let_def expertConfig_fields restEnv_inclination
      constrainf_def)

subsection \<open>Leveling in the limited sub-mode\<close>

lemma FLIGHT_MODE_set:
  "FLIGHT_MODE (env\<lparr>flightModeFlags := flightModeFlags env OR ANGLE_MODE\<rparr>) ANGLE_MODE"
  by (simp add: FLIGHT_MODE_def ANGLE_MODE_def word_ao_absorbs)

lemma errorAngle_flags:
  "errorAngle (env\<lparr>flightModeFlags := f\<rparr>) axis p trim = errorAngle env axis p trim"
  by (simp add: errorAngle_def Let_def)

lemma pidLevel_angle:
  "FLIGHT_MODE env ANGLE_MODE \<Longrightarrow>
   pidLevel cfg env axis p trim sp = errorAngle env axis p trim * levelGain cfg"
  by (simp add: pidLevel_def Let_def)

text \<open>
  C6, as the code has it. In the limited sub-mode (expert mode off, angle mode not active),
  while the inclination is below \<open>levelAngleLimit\<close>, \<open>pidLevel\<close> returns
  \<open>errorAngle * horizonGain\<close> and ignores the raw setpoint; from the limit on it returns the
  raw setpoint plus \<open>errorAngle * horizonGain * strength\<close>. Angle mode on the same inputs
  returns \<open>errorAngle * levelGain\<close>, so below the limit the two agree exactly when
  \<open>horizonGain\<close> equals \<open>levelGain\<close>, as in the default profile, or \<open>errorAngle\<close> is zero.
\<close>

theorem limited_horizon_level:
  assumes "horizonTiltExpertMode cfg = 0" and "\<not> FLIGHT_MODE env ANGLE_MODE"
  shows "(currentInclination env < real (unat (levelAngleLimit pidProfile)) \<longrightarrow>
            pidLevel cfg env axis pidProfile angleTrim rawSetpoint
              = errorAngle env axis pidProfile angleTrim * horizonGain cfg)
         \<and> (\<not> currentInclination env < real (unat (levelAngleLimit pidProfile)) \<longrightarrow>
            pidLevel cfg env axis pidProfile angleTrim rawSetpoint
              = rawSetpoint + errorAngle env axis pidProfile angleTrim * horizonGain cfg
                                * calcHorizonLevelStrength cfg env)
         \<and> pidLevel cfg (env\<lparr>flightModeFlags := flightModeFlags env OR ANGLE_MODE\<rparr>)
               axis pidProfile angleTrim rawSetpoint
              = errorAngle env axis pidProfile angleTrim * levelGain cfg
         \<and> (currentInclination env < real (unat (levelAngleLimit pidProfile)) \<longrightarrow>
            (pidLevel cfg env axis pidProfile angleTrim rawSetpoint
               = pidLevel cfg (env\<lparr>flightModeFlags := flightModeFlags env OR ANGLE_MODE\<rparr>)
                   axis pidProfile angleTrim rawSetpoint)
            = (horizonGain cfg = levelGain cfg \<or> errorAngle env axis pidProfile angleTrim = 0))"
  using assms
  by (simp add: pidLevel_angle [OF FLIGHT_MODE_set] errorAngle_flags)
     (auto simp: pidLevel_def Let_def)

lemma horizonEnv_facts:
  "\<not> FLIGHT_MODE horizonEnv ANGLE_MODE"
  "FLIGHT_MODE horizonEnv HORIZON_MODE"
  "currentInclination horizonEnv = 0"
  "errorAngle horizonEnv FD_ROLL resetPidProfile noTrim = 65"
  "errorAngle horizonEnv FD_ROLL gainProfile noTrim = 65"
  "(unsigned (levelAngleLimit resetPidProfile) :: real) = 65"
  "(unsigned (levelAngleLimit gainProfile) :: real) = 65"
  by (simp_all add: horizonEnv_def restEnv_def FLIGHT_MODE_def ANGLE_MODE_def HORIZON_MODE_def
      currentInclination_eq errorAngle_def Let_def constrainf_def resetPidProfile_def
      gainProfile_def noTrim_def)

text \<open>
  The default profile, whose level P and I values are both 50, at full roll stick and a
  level attitude: the error angle is 65 degrees and both modes return 325.
\<close>

theorem limited_horizon_level_witness:
  "horizonTiltExpertMode activeConfig = 0 \<and> \<not> FLIGHT_MODE horizonEnv ANGLE_MODE
   \<and> currentInclination horizonEnv < real (unat (levelAngleLimit resetPidProfile))
   \<and> horizonGain activeConfig = levelGain activeConfig
   \<and> errorAngle horizonEnv FD_ROLL resetPidProfile noTrim = 65
   \<and> pidLevel activeConfig horizonEnv FD_ROLL resetPidProfile noTrim 200 = 325
   \<and> pidLevel activeConfig angleEnv FD_ROLL resetPidProfile noTrim 200 = 325"
  using limited_horizon_level [of activeConfig horizonEnv resetPidProfile FD_ROLL noTrim 200]
  by (simp add: activeConfig_horizon horizonEnv_facts angleEnv_def)

lemma gainConfig_fields:
  "horizonTiltExpertMode gainConfig = 0"
  "horizonGain gainConfig = 3"
  "levelGain gainConfig = 5"
  by (simp_all only: gainConfig_def configOf_fields)
     (simp_all add: gainProfile_def resetPidProfile_def mkPid8_def)

text \<open>
  C6 as stated fails when the two gains differ: with a level P of 50 and a level I of 30,
  full stick and a level attitude, the limited sub-mode returns 195 where angle mode
  returns 325.
\<close>

theorem limited_horizon_level_counterexample:
  "horizonTiltExpertMode gainConfig = 0
   \<and> \<not> FLIGHT_MODE horizonEnv ANGLE_MODE
   \<and> currentInclination horizonEnv < real (unat (levelAngleLimit gainProfile))
   \<and> pidLevel gainConfig horizonEnv FD_ROLL gainProfile noTrim 200 = 195
   \<and> errorAngle horizonEnv FD_ROLL gainProfile noTrim * levelGain gainConfig = 325
   \<and> pidLevel gainConfig angleEnv FD_ROLL gainProfile noTrim 200 = 325"
  by (simp add: pidLevel_def Let_def gainConfig_fields horizonEnv_facts angleEnv_def
      FLIGHT_MODE_set errorAngle_flags)

subsection \<open>The axes that are levelled\<close>

lemma recovered_normal:
  assumes "\<not> inCrashRecoveryMode s"
  shows "recovered cfg p trim env t axis s
           = (fst (axisSetpoint cfg p trim env axis s),
              fst (axisSetpoint cfg p trim env axis s) - gyroADCf env axis,
              snd (limitedSetpoint cfg env axis s))"
  using assms
  by (simp add: recovered_def Let_def crashRecovery_normal axisSetpoint_snd limitedSetpoint_frame)

text \<open>
  C10. Let \<open>raw\<close> be the receiver's setpoint rate of an axis after the acceleration limit,
  and \<open>sp\<close> the setpoint from which the loop body takes the rate error. On yaw \<open>sp\<close> is \<open>raw\<close>
  in every mode. With horizon mode active and angle mode not, \<open>sp\<close> is \<open>pidLevel\<close> of \<open>raw\<close> on
  roll and is \<open>raw\<close> on pitch and yaw. With angle mode active \<open>sp\<close> is \<open>pidLevel\<close> of \<open>raw\<close> on roll
  and pitch. With neither mode \<open>sp\<close> is \<open>raw\<close>. Outside crash recovery the rate error the
  P and I terms use is \<open>sp\<close> minus the gyro rate.
\<close>

theorem leveling_axes:
  "let raw = fst (limitedSetpoint cfg env axis s);
       sp = fst (axisSetpoint cfg pidProfile angleTrim env axis s)
   in (axis = FD_YAW \<longrightarrow> sp = raw)
      \<and> (FLIGHT_MODE env HORIZON_MODE \<and> \<not> FLIGHT_MODE env ANGLE_MODE \<longrightarrow>
            (axis = FD_ROLL \<longrightarrow> sp = pidLevel cfg env axis pidProfile angleTrim raw)
            \<and> (axis \<noteq> FD_ROLL \<longrightarrow> sp = raw))
      \<and> (FLIGHT_MODE env ANGLE_MODE \<and> axis \<noteq> FD_YAW \<longrightarrow>
            sp = pidLevel cfg env axis pidProfile angleTrim raw)
      \<and> (\<not> FLIGHT_MODE env HORIZON_MODE \<and> \<not> FLIGHT_MODE env ANGLE_MODE \<longrightarrow> sp = raw)
      \<and> (\<not> inCrashRecoveryMode s \<longrightarrow>
            fst (snd (recovered cfg pidProfile angleTrim env currentTimeUs axis s))
              = sp - gyroADCf env axis)"
proof -
  have five: "\<not> inCrashRecoveryMode s \<longrightarrow>
            fst (snd (recovered cfg pidProfile angleTrim env currentTimeUs axis s))
              = fst (axisSetpoint cfg pidProfile angleTrim env axis s) - gyroADCf env axis"
    by (simp add: recovered_normal)
  show ?thesis
    unfolding Let_def
    using five
    by (cases axis) (simp_all add: axisSetpoint_def Let_def pidLevel_angle)
qed

lemma horizon_raw:
  "fst (limitedSetpoint activeConfig horizonEnv FD_PITCH bootState) = 200"
  "fst (limitedSetpoint activeConfig horizonEnv FD_ROLL bootState) = 200"
  "maxVelocity activeConfig FD_PITCH = 0"
  by (simp_all add: limitedSetpoint_def activeConfig_maxVelocity horizonEnv_def restEnv_def)

theorem leveling_axes_witness:
  "FLIGHT_MODE horizonEnv HORIZON_MODE \<and> \<not> FLIGHT_MODE horizonEnv ANGLE_MODE
   \<and> \<not> inCrashRecoveryMode bootState
   \<and> fst (axisSetpoint activeConfig resetPidProfile noTrim horizonEnv FD_PITCH bootState) = 200
   \<and> fst (snd (recovered activeConfig resetPidProfile noTrim horizonEnv 1000 FD_PITCH bootState)) = 200
   \<and> fst (axisSetpoint activeConfig resetPidProfile noTrim horizonEnv FD_ROLL bootState)
        = pidLevel activeConfig horizonEnv FD_ROLL resetPidProfile noTrim 200"
proof -
  have g: "gyroADCf horizonEnv FD_PITCH = 0" and n: "\<not> inCrashRecoveryMode bootState"
    by (simp_all add: horizonEnv_def restEnv_def bootState_def)
  show ?thesis
    using leveling_axes [of activeConfig horizonEnv FD_PITCH bootState resetPidProfile noTrim 1000]
      leveling_axes [of activeConfig horizonEnv FD_ROLL bootState resetPidProfile noTrim 1000]
    by (simp add: Let_def horizonEnv_facts horizon_raw g n)
qed

subsection \<open>Entering crash recovery\<close>

lemma limitedSetpoint_frame2:
  "previousRateError (snd (limitedSetpoint cfg env axis s)) = previousRateError s"
  "dtermFilterNotch (snd (limitedSetpoint cfg env axis s)) = dtermFilterNotch s"
  "dtermFilterLpf (snd (limitedSetpoint cfg env axis s)) = dtermFilterLpf s"
  by (simp_all add: limitedSetpoint_def accelerationLimit_def Let_def)

lemma rateChange_cong:
  assumes "previousRateError s' axis = previousRateError s axis"
    and "dtermFilterNotch s' axis = dtermFilterNotch s axis"
    and "dtermFilterLpf s' axis = dtermFilterLpf s axis"
  shows "rateChange lib cfg env axis sp s' = rateChange lib cfg env axis sp s"
  using assms by (simp add: rateChange_def rateD_def dtermFiltered_def Let_def)



lemma crashDetect_cong:
  assumes "inCrashRecoveryMode s' = inCrashRecoveryMode s"
    and "crashDetectedAtUs s' = crashDetectedAtUs s"
  shows "inCrashRecoveryMode (crashDetect cfg p env t axis c dt e s')
           = inCrashRecoveryMode (crashDetect cfg p env t axis c dt e s)"
    and "crashDetectedAtUs (crashDetect cfg p env t axis c dt e s')
           = crashDetectedAtUs (crashDetect cfg p env t axis c dt e s)"
  using assms by (auto simp: crashDetect_def Let_def)

lemma crashDetect_from_normal:
  assumes "\<not> inCrashRecoveryMode s"
  shows "inCrashRecoveryMode (crashDetect cfg p env t axis c dt e s) \<longleftrightarrow>
           crash_recovery p \<noteq> PID_CRASH_RECOVERY_OFF \<and> \<not> gyroOverflowDetected env \<and> ARMED env
           \<and> getMotorMixRange env \<ge> 1 \<and> deltaAbove c dt (crashDtermThreshold cfg)
           \<and> \<bar>e\<bar> > crashGyroThreshold cfg
           \<and> \<bar>getSetpointRate env axis\<bar> < crashSetpointThreshold cfg"
    and "inCrashRecoveryMode (crashDetect cfg p env t axis c dt e s) \<longrightarrow>
           crashDetectedAtUs (crashDetect cfg p env t axis c dt e s) = t"
    and "\<not> inCrashRecoveryMode (crashDetect cfg p env t axis c dt e s) \<longrightarrow>
           crashDetectedAtUs (crashDetect cfg p env t axis c dt e s) = crashDetectedAtUs s"
  using assms by (simp_all add: crashDetect_def Let_def ABS_abs)



lemma dtermStep_crash:
  "inCrashRecoveryMode (dtermStep lib cfg p env t dt axis sp e s)
     = (if axis \<noteq> FD_YAW
        then inCrashRecoveryMode
               (crashDetect cfg p env t axis (rateChange lib cfg env axis sp s) dt e s)
        else inCrashRecoveryMode s)"
  "crashDetectedAtUs (dtermStep lib cfg p env t dt axis sp e s)
     = (if axis \<noteq> FD_YAW
        then crashDetectedAtUs
               (crashDetect cfg p env t axis (rateChange lib cfg env axis sp s) dt e s)
        else crashDetectedAtUs s)"
proof -
  let ?s1 = "s\<lparr>previousRateError := (previousRateError s)(axis := rateD lib cfg env axis sp s),
               dtermFilterNotch := (dtermFilterNotch s)(axis := fst (snd (dtermFiltered lib cfg env axis s))),
               dtermFilterLpf := (dtermFilterLpf s)(axis := snd (snd (dtermFiltered lib cfg env axis s)))\<rparr>"
  have c: "inCrashRecoveryMode ?s1 = inCrashRecoveryMode s" "crashDetectedAtUs ?s1 = crashDetectedAtUs s"
    by simp_all
  note cong = crashDetect_cong [OF c, of cfg p env t axis "rateChange lib cfg env axis sp s" dt e]
  show "inCrashRecoveryMode (dtermStep lib cfg p env t dt axis sp e s)
     = (if axis \<noteq> FD_YAW
        then inCrashRecoveryMode
               (crashDetect cfg p env t axis (rateChange lib cfg env axis sp s) dt e s)
        else inCrashRecoveryMode s)"
    by (simp add: dtermStep_def Let_def cong)
  show "crashDetectedAtUs (dtermStep lib cfg p env t dt axis sp e s)
     = (if axis \<noteq> FD_YAW
        then crashDetectedAtUs
               (crashDetect cfg p env t axis (rateChange lib cfg env axis sp s) dt e s)
        else crashDetectedAtUs s)"
    by (simp add: dtermStep_def Let_def cong)
qed

lemma crashRecovery_idle:
  assumes "\<not> (inCrashRecoveryMode s \<and> cmpTimeUs t (crashDetectedAtUs s) > crashTimeDelayUs cfg)"
  shows "crashRecovery cfg p trim env t axis sp e s = (sp, e, s)"
  using assms by (cases "inCrashRecoveryMode s") (simp_all add: crashRecovery_def)

lemma recovered_idle:
  assumes "\<not> (inCrashRecoveryMode s \<and> cmpTimeUs t (crashDetectedAtUs s) > crashTimeDelayUs cfg)"
  shows "recovered cfg p trim env t axis s
           = (fst (axisSetpoint cfg p trim env axis s),
              fst (axisSetpoint cfg p trim env axis s) - gyroADCf env axis,
              snd (limitedSetpoint cfg env axis s))"
proof -
  have "\<not> (inCrashRecoveryMode (snd (axisSetpoint cfg p trim env axis s))
            \<and> cmpTimeUs t (crashDetectedAtUs (snd (axisSetpoint cfg p trim env axis s)))
                > crashTimeDelayUs cfg)"
    using assms by (simp add: axisSetpoint_snd limitedSetpoint_frame)
  then show ?thesis
    by (simp add: recovered_def Let_def crashRecovery_idle axisSetpoint_snd)
qed

lemma pidAxis_crash_idle:
  assumes "\<not> (inCrashRecoveryMode s \<and> cmpTimeUs t (crashDetectedAtUs s) > crashTimeDelayUs cfg)"
  shows "inCrashRecoveryMode (pidAxis lib cfg p trim env t dt axis s)
           = (if axis \<noteq> FD_YAW
              then inCrashRecoveryMode
                     (crashDetect cfg p env t axis
                        (rateChange lib cfg env axis (fst (axisSetpoint cfg p trim env axis s)) s) dt
                        (fst (axisSetpoint cfg p trim env axis s) - gyroADCf env axis) s)
              else inCrashRecoveryMode s)"
    and "crashDetectedAtUs (pidAxis lib cfg p trim env t dt axis s)
           = (if axis \<noteq> FD_YAW
              then crashDetectedAtUs
                     (crashDetect cfg p env t axis
                        (rateChange lib cfg env axis (fst (axisSetpoint cfg p trim env axis s)) s) dt
                        (fst (axisSetpoint cfg p trim env axis s) - gyroADCf env axis) s)
              else crashDetectedAtUs s)"
proof -
  let ?s2 = "snd (limitedSetpoint cfg env axis s)"
  let ?sp = "fst (axisSetpoint cfg p trim env axis s)"
  let ?e = "?sp - gyroADCf env axis"
  let ?s4 = "itermStep cfg env axis ?e (ptermStep lib cfg env axis ?e ?s2)"
  have d: "rateChange lib cfg env axis ?sp ?s4 = rateChange lib cfg env axis ?sp s"
    by (rule rateChange_cong) (simp_all add: itermStep_frame ptermStep_frame limitedSetpoint_frame2)
  have c: "inCrashRecoveryMode ?s4 = inCrashRecoveryMode s" "crashDetectedAtUs ?s4 = crashDetectedAtUs s"
    by (simp_all add: itermStep_frame ptermStep_frame limitedSetpoint_frame)
  show "inCrashRecoveryMode (pidAxis lib cfg p trim env t dt axis s)
           = (if axis \<noteq> FD_YAW
              then inCrashRecoveryMode
                     (crashDetect cfg p env t axis
                        (rateChange lib cfg env axis (fst (axisSetpoint cfg p trim env axis s)) s) dt
                        (fst (axisSetpoint cfg p trim env axis s) - gyroADCf env axis) s)
              else inCrashRecoveryMode s)"
    by (simp add: pidAxis_def Let_def recovered_idle [OF assms] disableStep_frame dtermStep_crash d
        crashDetect_cong(1) [OF c] c itermStep_frame ptermStep_frame limitedSetpoint_frame)
  show "crashDetectedAtUs (pidAxis lib cfg p trim env t dt axis s)
           = (if axis \<noteq> FD_YAW
              then crashDetectedAtUs
                     (crashDetect cfg p env t axis
                        (rateChange lib cfg env axis (fst (axisSetpoint cfg p trim env axis s)) s) dt
                        (fst (axisSetpoint cfg p trim env axis s) - gyroADCf env axis) s)
              else crashDetectedAtUs s)"
    by (simp add: pidAxis_def Let_def recovered_idle [OF assms] disableStep_frame dtermStep_crash d
        crashDetect_cong(2) [OF c] c itermStep_frame ptermStep_frame limitedSetpoint_frame)
qed












lemma f32_zero: "f32 0 = 0"
  by (simp add: f32_def)

lemma crashConfig_fields:
  "pidStabilisationEnabled crashConfig"
  "maxVelocity crashConfig FD_ROLL = 0"
  "maxVelocity crashConfig FD_PITCH = 0"
  "crashDtermThreshold crashConfig = 50"
  "crashGyroThreshold crashConfig = 400"
  "crashSetpointThreshold crashConfig = 350"
  "crashTimeDelayUs crashConfig = 0"
  "crashTimeLimitUs crashConfig = 500000"
  "crashRecoveryRate crashConfig = 100"
  by (simp_all only: crashConfig_def stabilised_fields configOf_fields)
     (simp_all add: crashProfile_def resetPidProfile_def f32_zero)





lemma crashEnv_facts:
  "ARMED crashEnv" "\<not> gyroOverflowDetected crashEnv" "getMotorMixRange crashEnv = 1"
  "flightModeFlags crashEnv = 0"
  "getSetpointRate crashEnv axis = 0"
  "gyroADCf crashEnv FD_ROLL = 500" "gyroADCf crashEnv FD_PITCH = 0"
  by (simp_all add: crashEnv_def restEnv_def)




subsection \<open>Leaving crash recovery on disarm\<close>

lemma crashDetect_disarmed:
  assumes "crash_recovery p \<noteq> PID_CRASH_RECOVERY_OFF" and "\<not> gyroOverflowDetected env"
    and "\<not> ARMED env"
  shows "\<not> inCrashRecoveryMode (crashDetect cfg p env t axis c dt e s)"
  using assms by (simp add: crashDetect_def)

lemma pidAxis_crash_flag:
  "inCrashRecoveryMode (pidAxis lib cfg p trim env t dt axis s)
     = inCrashRecoveryMode
         (dtermStep lib cfg p env t dt axis (fst (recovered cfg p trim env t axis s))
            (fst (snd (recovered cfg p trim env t axis s)))
            (itermStep cfg env axis (fst (snd (recovered cfg p trim env t axis s)))
              (ptermStep lib cfg env axis (fst (snd (recovered cfg p trim env t axis s)))
                (snd (snd (recovered cfg p trim env t axis s))))))"
  by (simp add: pidAxis_def Let_def disableStep_frame)

lemma pidAxis_disarmed_exit:
  assumes "crash_recovery p \<noteq> PID_CRASH_RECOVERY_OFF" and "\<not> gyroOverflowDetected env"
    and "\<not> ARMED env" and "axis \<noteq> FD_YAW"
  shows "\<not> inCrashRecoveryMode (pidAxis lib cfg p trim env t dt axis s)"
  using assms(4) crashDetect_disarmed [OF assms(1-3)]
  by (simp add: pidAxis_crash_flag dtermStep_crash)

lemma pidAxis_disarmed_stays_normal:
  assumes "\<not> ARMED env" and "\<not> inCrashRecoveryMode s"
  shows "\<not> inCrashRecoveryMode (pidAxis lib cfg p trim env t dt axis s)"
proof -
  have idle: "\<not> (inCrashRecoveryMode s \<and> cmpTimeUs t (crashDetectedAtUs s) > crashTimeDelayUs cfg)"
    using assms(2) by simp
  show ?thesis
    using assms by (simp add: pidAxis_crash_idle [OF idle] crashDetect_from_normal [OF assms(2)])
qed

text \<open>
  C8, as the code has it. The exit on disarm sits inside the block that the profile's
  \<open>crash_recovery\<close> setting and the absence of a gyro overflow guard. When the motors are
  disarmed, crash recovery is enabled in the profile and no gyro overflow is detected, a
  tick of \<open>pidController\<close> ends with \<open>inCrashRecoveryMode\<close> clear, whatever the timers, rates,
  attitude and thresholds are and whatever the state was before.
\<close>

theorem disarm_exits_recovery:
  assumes "\<not> ARMED env"
    and "crash_recovery pidProfile \<noteq> PID_CRASH_RECOVERY_OFF"
    and "\<not> gyroOverflowDetected env"
  shows "\<not> inCrashRecoveryMode (pidController lib cfg pidProfile angleTrim env currentTimeUs s)"
proof -
  let ?dt = "elapsed currentTimeUs (previousTimeUs s)"
  let ?s1 = "pidAxis lib cfg pidProfile angleTrim env currentTimeUs ?dt FD_ROLL
               (s\<lparr>previousTimeUs := currentTimeUs\<rparr>)"
  let ?s2 = "pidAxis lib cfg pidProfile angleTrim env currentTimeUs ?dt FD_PITCH ?s1"
  have "\<not> inCrashRecoveryMode ?s1"
    by (rule pidAxis_disarmed_exit [OF assms(2,3,1)]) simp
  then have "\<not> inCrashRecoveryMode ?s2"
    by (rule pidAxis_disarmed_stays_normal [OF assms(1)])
  then have "\<not> inCrashRecoveryMode
               (pidAxis lib cfg pidProfile angleTrim env currentTimeUs ?dt FD_YAW ?s2)"
    by (rule pidAxis_disarmed_stays_normal [OF assms(1)])
  then show ?thesis
    unfolding pidController_unfold .
qed

lemma recovered_crash_time:
  "crashDetectedAtUs (snd (snd (recovered cfg p trim env t axis s))) = crashDetectedAtUs s"
  by (simp add: recovered_def Let_def crashRecovery_frame axisSetpoint_snd limitedSetpoint_frame)

lemma crashRecoveryExit_held:
  assumes "getMotorMixRange env \<ge> 1"
    and "cmpTimeUs t (crashDetectedAtUs s) \<le> crashTimeLimitUs cfg"
  shows "inCrashRecoveryMode (crashRecoveryExit cfg trim env t s) = inCrashRecoveryMode s"
  using assms by (simp add: crashRecoveryExit_def)

lemma recovered_held:
  assumes "getMotorMixRange env \<ge> 1"
    and "cmpTimeUs t (crashDetectedAtUs s) \<le> crashTimeLimitUs cfg"
  shows "inCrashRecoveryMode (snd (snd (recovered cfg p trim env t axis s))) = inCrashRecoveryMode s"
  using assms
  by (simp add: recovered_def crashRecovery_def Let_def axisSetpoint_snd limitedSetpoint_frame
      crashRecoveryExit_held)

lemma crashDetect_armed_held:
  assumes "ARMED env" and "inCrashRecoveryMode s"
    and "\<not> cmpTimeUs t (crashDetectedAtUs s) < crashTimeDelayUs cfg"
  shows "crashDetect cfg p env t axis c dt e s = s"
  using assms by (simp add: crashDetect_def Let_def)

lemma pidAxis_armed_held:
  assumes "ARMED env" and "getMotorMixRange env \<ge> 1"
    and "cmpTimeUs t (crashDetectedAtUs s) \<le> crashTimeLimitUs cfg"
    and "\<not> cmpTimeUs t (crashDetectedAtUs s) < crashTimeDelayUs cfg"
    and "inCrashRecoveryMode s"
  shows "inCrashRecoveryMode (pidAxis lib cfg p trim env t dt axis s)"
    and "crashDetectedAtUs (pidAxis lib cfg p trim env t dt axis s) = crashDetectedAtUs s"
proof -
  let ?r = "recovered cfg p trim env t axis s"
  let ?s4 = "itermStep cfg env axis (fst (snd ?r))
               (ptermStep lib cfg env axis (fst (snd ?r)) (snd (snd ?r)))"
  have i: "inCrashRecoveryMode ?s4" and ts: "crashDetectedAtUs ?s4 = crashDetectedAtUs s"
    using assms(5)
    by (simp_all add: itermStep_frame ptermStep_frame recovered_held [OF assms(2,3)]
        recovered_crash_time)
  have nd: "\<not> cmpTimeUs t (crashDetectedAtUs ?s4) < crashTimeDelayUs cfg"
    unfolding ts by (rule assms(4))
  note held = crashDetect_armed_held [OF assms(1) i nd, of p axis]
  show "inCrashRecoveryMode (pidAxis lib cfg p trim env t dt axis s)"
    using i by (cases "axis = FD_YAW") (simp_all add: pidAxis_crash_flag dtermStep_crash held)
  show "crashDetectedAtUs (pidAxis lib cfg p trim env t dt axis s) = crashDetectedAtUs s"
    using ts
    by (cases "axis = FD_YAW")
       (simp_all add: pidAxis_def Let_def disableStep_frame dtermStep_crash held)
qed

lemma pidController_armed_held:
  assumes "ARMED env" and "getMotorMixRange env \<ge> 1"
    and "cmpTimeUs t (crashDetectedAtUs s) \<le> crashTimeLimitUs cfg"
    and "\<not> cmpTimeUs t (crashDetectedAtUs s) < crashTimeDelayUs cfg"
    and "inCrashRecoveryMode s"
  shows "inCrashRecoveryMode (pidController lib cfg p trim env t s)"
proof -
  let ?dt = "elapsed t (previousTimeUs s)"
  let ?s0 = "s\<lparr>previousTimeUs := t\<rparr>"
  let ?s1 = "pidAxis lib cfg p trim env t ?dt FD_ROLL ?s0"
  let ?s2 = "pidAxis lib cfg p trim env t ?dt FD_PITCH ?s1"
  have a0: "cmpTimeUs t (crashDetectedAtUs ?s0) \<le> crashTimeLimitUs cfg"
    "\<not> cmpTimeUs t (crashDetectedAtUs ?s0) < crashTimeDelayUs cfg" "inCrashRecoveryMode ?s0"
    using assms(3-5) by simp_all
  note r1 = pidAxis_armed_held [OF assms(1,2) a0, of lib p trim ?dt FD_ROLL]
  have a1: "cmpTimeUs t (crashDetectedAtUs ?s1) \<le> crashTimeLimitUs cfg"
    "\<not> cmpTimeUs t (crashDetectedAtUs ?s1) < crashTimeDelayUs cfg"
    unfolding r1(2) by (rule a0(1)) (rule a0(2))
  note r2 = pidAxis_armed_held [OF assms(1,2) a1 r1(1), of lib p trim ?dt FD_PITCH]
  have a2: "cmpTimeUs t (crashDetectedAtUs ?s2) \<le> crashTimeLimitUs cfg"
    "\<not> cmpTimeUs t (crashDetectedAtUs ?s2) < crashTimeDelayUs cfg"
    unfolding r2(2) by (rule a1(1)) (rule a1(2))
  note r3 = pidAxis_armed_held [OF assms(1,2) a2 r2(1), of lib p trim ?dt FD_YAW]
  show ?thesis
    unfolding pidController_unfold by (rule r3(1))
qed

lemma recoveringState_facts:
  "inCrashRecoveryMode recoveringState" "crashDetectedAtUs recoveringState = 0"
  by (simp_all add: recoveringState_def bootState_def)

text \<open>
  In recovery for one millisecond, with the mix saturated and a roll rate of 500, so that
  neither the time limit nor the calm-rates exit applies: the disarmed tick clears the
  flag, and the same tick with the motors armed leaves it set.
\<close>

theorem disarm_exits_recovery_witness:
  "\<not> ARMED disarmedEnv
   \<and> crash_recovery crashProfile \<noteq> PID_CRASH_RECOVERY_OFF
   \<and> \<not> gyroOverflowDetected disarmedEnv
   \<and> inCrashRecoveryMode recoveringState
   \<and> getMotorMixRange disarmedEnv = 1 \<and> gyroADCf disarmedEnv FD_ROLL = 500
   \<and> \<not> inCrashRecoveryMode
          (pidController idLib crashConfig crashProfile noTrim disarmedEnv 1000 recoveringState)
   \<and> inCrashRecoveryMode
        (pidController idLib crashConfig crashProfile noTrim crashEnv 1000 recoveringState)"
proof -
  have a: "\<not> ARMED disarmedEnv" and c: "\<not> gyroOverflowDetected disarmedEnv"
    and m: "getMotorMixRange disarmedEnv = 1" "gyroADCf disarmedEnv FD_ROLL = 500"
    by (simp_all add: disarmedEnv_def crashEnv_def restEnv_def)
  have b: "crash_recovery crashProfile \<noteq> PID_CRASH_RECOVERY_OFF"
    by (simp add: crashProfile_def)
  have t: "cmpTimeUs 1000 (crashDetectedAtUs recoveringState) \<le> crashTimeLimitUs crashConfig"
    "\<not> cmpTimeUs 1000 (crashDetectedAtUs recoveringState) < crashTimeDelayUs crashConfig"
    by (simp_all add: recoveringState_facts cmpTimeUs_def crashConfig_fields)
  have g: "getMotorMixRange crashEnv \<ge> 1"
    by (simp add: crashEnv_facts)
  note armed = pidController_armed_held [OF crashEnv_facts(1) g t recoveringState_facts(1),
      of idLib crashProfile noTrim]
  show ?thesis
    using a b c m recoveringState_facts(1) armed
      disarm_exits_recovery [OF a b c, of idLib crashConfig noTrim 1000 recoveringState]
    by blast
qed

lemma crashDetect_overflow:
  "gyroOverflowDetected env \<Longrightarrow> crashDetect cfg p env t axis c dt e s = s"
  by (simp add: crashDetect_def)

lemma dtermStep_overflow:
  assumes "gyroOverflowDetected env"
  shows "inCrashRecoveryMode (dtermStep lib cfg p env t dt axis sp e s) = inCrashRecoveryMode s"
    and "crashDetectedAtUs (dtermStep lib cfg p env t dt axis sp e s) = crashDetectedAtUs s"
  by (simp_all add: dtermStep_crash crashDetect_overflow [OF assms])

lemma pidAxis_overflow_held:
  assumes "gyroOverflowDetected env" and "getMotorMixRange env \<ge> 1"
    and "cmpTimeUs t (crashDetectedAtUs s) \<le> crashTimeLimitUs cfg"
  shows "inCrashRecoveryMode (pidAxis lib cfg p trim env t dt axis s) = inCrashRecoveryMode s"
    and "crashDetectedAtUs (pidAxis lib cfg p trim env t dt axis s) = crashDetectedAtUs s"
  by (simp_all add: pidAxis_def Let_def disableStep_frame dtermStep_overflow [OF assms(1)]
      itermStep_frame ptermStep_frame recovered_held [OF assms(2,3)] recovered_crash_time)

lemma pidAxes_overflow_held:
  assumes "gyroOverflowDetected env" and "getMotorMixRange env \<ge> 1"
    and "cmpTimeUs t (crashDetectedAtUs s) \<le> crashTimeLimitUs cfg"
  shows "inCrashRecoveryMode (pidAxis lib cfg p trim env t dt FD_YAW
            (pidAxis lib cfg p trim env t dt FD_PITCH
              (pidAxis lib cfg p trim env t dt FD_ROLL s))) = inCrashRecoveryMode s"
proof -
  let ?s1 = "pidAxis lib cfg p trim env t dt FD_ROLL s"
  let ?s2 = "pidAxis lib cfg p trim env t dt FD_PITCH ?s1"
  note r1 = pidAxis_overflow_held [OF assms, of lib p trim dt FD_ROLL]
  have t1: "cmpTimeUs t (crashDetectedAtUs ?s1) \<le> crashTimeLimitUs cfg"
    using assms(3) by (simp only: r1)
  note r2 = pidAxis_overflow_held [OF assms(1,2) t1, of lib p trim dt FD_PITCH]
  have t2: "cmpTimeUs t (crashDetectedAtUs ?s2) \<le> crashTimeLimitUs cfg"
    using t1 by (simp only: r2)
  note r3 = pidAxis_overflow_held [OF assms(1,2) t2, of lib p trim dt FD_YAW]
  show ?thesis
    by (simp only: r1 r2 r3)
qed

lemma pidController_overflow_held:
  assumes "gyroOverflowDetected env" and "getMotorMixRange env \<ge> 1"
    and "cmpTimeUs t (crashDetectedAtUs s) \<le> crashTimeLimitUs cfg"
  shows "inCrashRecoveryMode (pidController lib cfg p trim env t s) = inCrashRecoveryMode s"
proof -
  have t0: "cmpTimeUs t (crashDetectedAtUs (s\<lparr>previousTimeUs := t\<rparr>)) \<le> crashTimeLimitUs cfg"
    using assms(3) by simp
  show ?thesis
    by (simp add: pidController_unfold pidAxes_overflow_held [OF assms(1,2) t0])
qed

text \<open>
  C8 as stated fails: in recovery, disarmed, with the gyro overflow flag up, the motor mix
  saturated and the time limit not reached, the tick leaves \<open>inCrashRecoveryMode\<close> set.
\<close>

theorem disarm_exit_counterexample:
  "inCrashRecoveryMode recoveringState \<and> \<not> ARMED overflowEnv
   \<and> inCrashRecoveryMode
        (pidController idLib crashConfig crashProfile noTrim overflowEnv 1000 recoveringState)"
proof -
  have a: "gyroOverflowDetected overflowEnv" "getMotorMixRange overflowEnv \<ge> 1"
    "\<not> ARMED overflowEnv"
    by (simp_all add: overflowEnv_def restEnv_def)
  have b: "cmpTimeUs 1000 (crashDetectedAtUs recoveringState) \<le> crashTimeLimitUs crashConfig"
    by (simp add: recoveringState_facts cmpTimeUs_def crashConfig_fields)
  show ?thesis
    using a(3) recoveringState_facts(1)
      pidController_overflow_held [OF a(1,2) b, of idLib crashProfile noTrim]
    by simp
qed

subsection \<open>The filter chain and the Nyquist frequency\<close>

lemma unat_ucast_le: "unat (ucast w :: u16) \<le> unat (w :: u32)"
  by (simp add: unsigned_ucast_eq take_bit_nat_less_eq_self)

lemma initNotch_fn:
  "dtermNotchFilterApplyFn (fst (initNotch lib p nyquist cs))
     = (if dTermNotchHz p nyquist \<noteq> 0 \<and> dterm_notch_cutoff p \<noteq> 0
        then biquadFilterApply else nullFilterApply)"
  "dtermLpfApplyFn (fst (initNotch lib p nyquist cs)) = dtermLpfApplyFn (fst cs)"
  "ptermYawFilterApplyFn (fst (initNotch lib p nyquist cs)) = ptermYawFilterApplyFn (fst cs)"
  "targetPidLooptime (fst (initNotch lib p nyquist cs)) = targetPidLooptime (fst cs)"
  "dT (fst (initNotch lib p nyquist cs)) = dT (fst cs)"
  by (simp_all add: initNotch_def Let_def)

lemma initDtermLpf_fn:
  "dtermLpfApplyFn (fst (initDtermLpf lib p nyquist cs))
     = (if dterm_lpf_hz p = 0 \<or> unat (dterm_lpf_hz p) > unat nyquist then nullFilterApply
        else if dterm_filter_type p = FILTER_PT1 then pt1FilterApply
        else if dterm_filter_type p = FILTER_BIQUAD then biquadFilterApply
        else if dterm_filter_type p = FILTER_FIR then firFilterDenoiseUpdate
        else nullFilterApply)"
  "dtermNotchFilterApplyFn (fst (initDtermLpf lib p nyquist cs)) = dtermNotchFilterApplyFn (fst cs)"
  "ptermYawFilterApplyFn (fst (initDtermLpf lib p nyquist cs)) = ptermYawFilterApplyFn (fst cs)"
  "targetPidLooptime (fst (initDtermLpf lib p nyquist cs)) = targetPidLooptime (fst cs)"
  "dT (fst (initDtermLpf lib p nyquist cs)) = dT (fst cs)"
  by (simp_all add: initDtermLpf_def Let_def)

lemma initYawLpf_fn:
  "ptermYawFilterApplyFn (fst (initYawLpf lib p nyquist cs))
     = (if yaw_lpf_hz p = 0 \<or> unat (yaw_lpf_hz p) > unat nyquist then nullFilterApply
        else pt1FilterApply)"
  "dtermNotchFilterApplyFn (fst (initYawLpf lib p nyquist cs)) = dtermNotchFilterApplyFn (fst cs)"
  "dtermLpfApplyFn (fst (initYawLpf lib p nyquist cs)) = dtermLpfApplyFn (fst cs)"
  by (simp_all add: initYawLpf_def Let_def)

lemma initNotch_state:
  assumes "dTermNotchHz p nyquist \<noteq> 0" and "dterm_notch_cutoff p \<noteq> 0"
  shows "dtermFilterNotch (snd (initNotch lib p nyquist cs)) FD_ROLL
     = biquadFilterInit lib (dTermNotchHz p nyquist) (targetPidLooptime (fst cs))
         (filterGetNotchQ lib (dTermNotchHz p nyquist) (dterm_notch_cutoff p)) FILTER_NOTCH"
    and "dtermFilterNotch (snd (initNotch lib p nyquist cs)) FD_PITCH
     = biquadFilterInit lib (dTermNotchHz p nyquist) (targetPidLooptime (fst cs))
         (filterGetNotchQ lib (dTermNotchHz p nyquist) (dterm_notch_cutoff p)) FILTER_NOTCH"
  using assms by (simp_all add: initNotch_def Let_def)

lemma initDtermLpf_state:
  assumes "dterm_lpf_hz p \<noteq> 0" and "\<not> unat (dterm_lpf_hz p) > unat nyquist"
    and "dterm_filter_type p = FILTER_BIQUAD"
  shows "dtermFilterLpf (snd (initDtermLpf lib p nyquist cs)) FD_ROLL
     = biquadFilterInitLPF lib (dterm_lpf_hz p) (targetPidLooptime (fst cs))"
    and "dtermFilterLpf (snd (initDtermLpf lib p nyquist cs)) FD_PITCH
     = biquadFilterInitLPF lib (dterm_lpf_hz p) (targetPidLooptime (fst cs))"
  using assms by (simp_all add: initDtermLpf_def Let_def FILTER_BIQUAD_def FILTER_PT1_def)

lemma later_keep_notch:
  "dtermFilterNotch (snd (initYawLpf lib p nyquist (initDtermLpf lib p nyquist cs)))
     = dtermFilterNotch (snd cs)"
  by (simp add: initYawLpf_def initDtermLpf_def Let_def)

lemma later_keep_lpf:
  "dtermFilterLpf (snd (initYawLpf lib p nyquist cs)) = dtermFilterLpf (snd cs)"
  by (simp add: initYawLpf_def Let_def)

lemma pidInitFilters_chain:
  assumes "looptime \<noteq> 0"
  shows "pidInitFilters lib p (pidSetTargetLooptime looptime cfg, s)
           = initYawLpf lib p (pidFrequencyNyquist (pidSetTargetLooptime looptime cfg))
               (initDtermLpf lib p (pidFrequencyNyquist (pidSetTargetLooptime looptime cfg))
                 (initNotch lib p (pidFrequencyNyquist (pidSetTargetLooptime looptime cfg))
                   (pidSetTargetLooptime looptime cfg, s)))"
proof -
  have lt: "targetPidLooptime (pidSetTargetLooptime looptime cfg) \<noteq> 0"
    using assms by (simp add: pidSetTargetLooptime_def)
  show ?thesis
    using lt by (simp add: pidInitFilters_def Let_def)
qed

text \<open>
  C7, as the code has it. For a non-zero loop time let \<open>pidFrequencyNyquist\<close> be the local
  of that name: the float \<open>(1.0f / dT) / 2\<close> with \<open>dT\<close> the float product of the loop time and
  \<open>0.000001f\<close>, truncated to an integer. The D-term low-pass is the identity when its cutoff
  is zero or greater than \<open>pidFrequencyNyquist\<close> and is the filter of the configured type
  otherwise (the identity for a type that is none of the three), so an active one has a
  non-zero cutoff of at most \<open>pidFrequencyNyquist\<close>, and a cutoff equal to it is installed; the
  yaw low-pass is active exactly when its cutoff is non-zero and at most
  \<open>pidFrequencyNyquist\<close>. The notch is built, on roll and pitch, at a frequency \<open>hz\<close> that is
  the configured one when that is at most \<open>pidFrequencyNyquist\<close>, and otherwise
  \<open>pidFrequencyNyquist\<close> stored in 16 bits when the notch cutoff is below
  \<open>pidFrequencyNyquist\<close>, and zero when it is not; the notch is active exactly when \<open>hz\<close> and
  the notch cutoff are not zero, \<open>hz\<close> never exceeds \<open>pidFrequencyNyquist\<close>, and the notch is
  the identity when both the configured frequency lies above \<open>pidFrequencyNyquist\<close> and the
  cutoff is not below it.
\<close>

theorem filters_within_nyquist:
  assumes "looptime \<noteq> 0"
  shows "let c0 = pidSetTargetLooptime looptime cfg;
             nyquist = pidFrequencyNyquist c0;
             r = pidInitFilters lib pidProfile (c0, s);
             cfg' = fst r;
             s' = snd r;
             hz = (if unat (dterm_notch_hz pidProfile) \<le> unat nyquist
                   then dterm_notch_hz pidProfile
                   else if unat (dterm_notch_cutoff pidProfile) < unat nyquist
                   then (ucast nyquist :: u16) else 0)
         in nyquist
              = of_nat (nat \<lfloor>f32 (f32 (1 / f32 (f32 (real (unat looptime)) * f32 0.000001)) / 2)\<rfloor>)
            \<and> dtermLpfApplyFn cfg'
                 = (if dterm_lpf_hz pidProfile = 0 \<or> unat (dterm_lpf_hz pidProfile) > unat nyquist
                    then nullFilterApply
                    else if dterm_filter_type pidProfile = FILTER_PT1 then pt1FilterApply
                    else if dterm_filter_type pidProfile = FILTER_BIQUAD then biquadFilterApply
                    else if dterm_filter_type pidProfile = FILTER_FIR then firFilterDenoiseUpdate
                    else nullFilterApply)
            \<and> (dtermLpfApplyFn cfg' \<noteq> nullFilterApply \<longrightarrow>
                  dterm_lpf_hz pidProfile \<noteq> 0 \<and> unat (dterm_lpf_hz pidProfile) \<le> unat nyquist)
            \<and> (ptermYawFilterApplyFn cfg' \<noteq> nullFilterApply \<longleftrightarrow>
                  yaw_lpf_hz pidProfile \<noteq> 0 \<and> unat (yaw_lpf_hz pidProfile) \<le> unat nyquist)
            \<and> (dtermNotchFilterApplyFn cfg' \<noteq> nullFilterApply \<longleftrightarrow>
                  hz \<noteq> 0 \<and> dterm_notch_cutoff pidProfile \<noteq> 0)
            \<and> unat hz \<le> unat nyquist
            \<and> (dtermNotchFilterApplyFn cfg' \<noteq> nullFilterApply \<longrightarrow>
                  dtermNotchFilterApplyFn cfg' = biquadFilterApply
                  \<and> dtermFilterNotch s' FD_ROLL
                      = biquadFilterInit lib hz looptime
                          (filterGetNotchQ lib hz (dterm_notch_cutoff pidProfile)) FILTER_NOTCH
                  \<and> dtermFilterNotch s' FD_PITCH
                      = biquadFilterInit lib hz looptime
                          (filterGetNotchQ lib hz (dterm_notch_cutoff pidProfile)) FILTER_NOTCH)
            \<and> (unat (dterm_notch_hz pidProfile) > unat nyquist
                  \<and> unat (dterm_notch_cutoff pidProfile) \<ge> unat nyquist \<longrightarrow>
                  dtermNotchFilterApplyFn cfg' = nullFilterApply)"
proof -
  define c0 where "c0 = pidSetTargetLooptime looptime cfg"
  define nyquist where "nyquist = pidFrequencyNyquist c0"
  define r where "r = pidInitFilters lib pidProfile (c0, s)"
  define hz where "hz = (if unat (dterm_notch_hz pidProfile) \<le> unat nyquist
                   then dterm_notch_hz pidProfile
                   else if unat (dterm_notch_cutoff pidProfile) < unat nyquist
                   then (ucast nyquist :: u16) else 0)"
  have hz: "dTermNotchHz pidProfile nyquist = hz"
    by (simp add: dTermNotchHz_def hz_def)
  have r: "r = initYawLpf lib pidProfile nyquist
                 (initDtermLpf lib pidProfile nyquist (initNotch lib pidProfile nyquist (c0, s)))"
    unfolding r_def nyquist_def c0_def by (rule pidInitFilters_chain [OF assms])
  have lt: "targetPidLooptime c0 = looptime"
    by (simp add: c0_def pidSetTargetLooptime_def)
  have c0: "nyquist
      = of_nat (nat \<lfloor>f32 (f32 (1 / f32 (f32 (real (unat looptime)) * f32 0.000001)) / 2)\<rfloor>)"
    by (simp add: nyquist_def c0_def pidFrequencyNyquist_def pidSetTargetLooptime_def)
  have lpf: "dtermLpfApplyFn (fst r)
     = (if dterm_lpf_hz pidProfile = 0 \<or> unat (dterm_lpf_hz pidProfile) > unat nyquist
        then nullFilterApply
        else if dterm_filter_type pidProfile = FILTER_PT1 then pt1FilterApply
        else if dterm_filter_type pidProfile = FILTER_BIQUAD then biquadFilterApply
        else if dterm_filter_type pidProfile = FILTER_FIR then firFilterDenoiseUpdate
        else nullFilterApply)"
    unfolding r by (simp only: initYawLpf_fn initDtermLpf_fn)
  have yaw: "ptermYawFilterApplyFn (fst r)
     = (if yaw_lpf_hz pidProfile = 0 \<or> unat (yaw_lpf_hz pidProfile) > unat nyquist
        then nullFilterApply else pt1FilterApply)"
    unfolding r by (simp only: initYawLpf_fn)
  have notch: "dtermNotchFilterApplyFn (fst r)
     = (if hz \<noteq> 0 \<and> dterm_notch_cutoff pidProfile \<noteq> 0
        then biquadFilterApply else nullFilterApply)"
    unfolding r by (simp only: initYawLpf_fn initDtermLpf_fn initNotch_fn hz)
  have c2: "dtermLpfApplyFn (fst r) \<noteq> nullFilterApply \<longrightarrow>
               dterm_lpf_hz pidProfile \<noteq> 0 \<and> unat (dterm_lpf_hz pidProfile) \<le> unat nyquist"
    by (simp add: lpf)
  have c4: "ptermYawFilterApplyFn (fst r) \<noteq> nullFilterApply \<longleftrightarrow>
               yaw_lpf_hz pidProfile \<noteq> 0 \<and> unat (yaw_lpf_hz pidProfile) \<le> unat nyquist"
    using not_less by (simp add: yaw)
  have c5: "dtermNotchFilterApplyFn (fst r) \<noteq> nullFilterApply \<longleftrightarrow>
               hz \<noteq> 0 \<and> dterm_notch_cutoff pidProfile \<noteq> 0"
    by (simp add: notch)
  have c6: "unat hz \<le> unat nyquist"
    by (simp add: hz_def unat_ucast_le)
  have c7: "dtermNotchFilterApplyFn (fst r) \<noteq> nullFilterApply \<longrightarrow>
               dtermNotchFilterApplyFn (fst r) = biquadFilterApply
               \<and> dtermFilterNotch (snd r) FD_ROLL
                   = biquadFilterInit lib hz looptime
                       (filterGetNotchQ lib hz (dterm_notch_cutoff pidProfile)) FILTER_NOTCH
               \<and> dtermFilterNotch (snd r) FD_PITCH
                   = biquadFilterInit lib hz looptime
                       (filterGetNotchQ lib hz (dterm_notch_cutoff pidProfile)) FILTER_NOTCH"
  proof
    assume "dtermNotchFilterApplyFn (fst r) \<noteq> nullFilterApply"
    then have nz: "dTermNotchHz pidProfile nyquist \<noteq> 0" "dterm_notch_cutoff pidProfile \<noteq> 0"
      using c5 by (simp_all add: hz)
    have b: "dtermNotchFilterApplyFn (fst r) = biquadFilterApply"
      using nz by (simp add: notch hz)
    show "dtermNotchFilterApplyFn (fst r) = biquadFilterApply
               \<and> dtermFilterNotch (snd r) FD_ROLL
                   = biquadFilterInit lib hz looptime
                       (filterGetNotchQ lib hz (dterm_notch_cutoff pidProfile)) FILTER_NOTCH
               \<and> dtermFilterNotch (snd r) FD_PITCH
                   = biquadFilterInit lib hz looptime
                       (filterGetNotchQ lib hz (dterm_notch_cutoff pidProfile)) FILTER_NOTCH"
      unfolding r later_keep_notch
      using b by (simp add: initNotch_state [OF nz] lt hz r [symmetric])
  qed
  have c8: "unat (dterm_notch_hz pidProfile) > unat nyquist
               \<and> unat (dterm_notch_cutoff pidProfile) \<ge> unat nyquist \<longrightarrow>
               dtermNotchFilterApplyFn (fst r) = nullFilterApply"
    by (simp add: notch hz_def)
  show ?thesis
    unfolding Let_def
    unfolding c0_def [symmetric]
    unfolding nyquist_def [symmetric]
    unfolding r_def [symmetric]
    unfolding hz_def [symmetric]
    using c0 lpf c2 c4 c5 c6 c7 c8 by blast
qed

lemma edgeProfile_fields:
  "dterm_lpf_hz edgeProfile = 499" "yaw_lpf_hz edgeProfile = 500"
  "dterm_notch_hz edgeProfile = 600" "dterm_notch_cutoff edgeProfile = 160"
  "dterm_filter_type edgeProfile = FILTER_BIQUAD"
  by (simp_all add: edgeProfile_def resetPidProfile_def)

lemma traceLib_fields:
  "biquadFilterInit traceLib hz looptime q kind = unat hz"
  "biquadFilterInitLPF traceLib hz looptime = unat hz"
  by (simp_all add: traceLib_def)

text \<open>
  At a loop time of 1000 microseconds \<open>pidFrequencyNyquist\<close> is 499. A D-term low-pass
  cutoff of 499 Hz installs the biquad, a yaw cutoff of 500 Hz leaves the identity, and a
  notch at 600 Hz with a cutoff of 160 Hz is built at 499 Hz.
\<close>

theorem filters_within_nyquist_witness:
  "(1000 :: u32) \<noteq> 0
   \<and> pidFrequencyNyquist (pidSetTargetLooptime 1000 priorConfig) = 499
   \<and> dtermLpfApplyFn (fst (pidInitFilters traceLib edgeProfile
                               (pidSetTargetLooptime 1000 priorConfig, traceState)))
        = biquadFilterApply
   \<and> ptermYawFilterApplyFn (fst (pidInitFilters traceLib edgeProfile
                                    (pidSetTargetLooptime 1000 priorConfig, traceState)))
        = nullFilterApply
   \<and> dtermNotchFilterApplyFn (fst (pidInitFilters traceLib edgeProfile
                                      (pidSetTargetLooptime 1000 priorConfig, traceState)))
        = biquadFilterApply
   \<and> dtermFilterNotch (snd (pidInitFilters traceLib edgeProfile
                               (pidSetTargetLooptime 1000 priorConfig, traceState))) FD_ROLL = 499
   \<and> dtermFilterNotch (snd (pidInitFilters traceLib edgeProfile
                               (pidSetTargetLooptime 1000 priorConfig, traceState))) FD_PITCH = 499"
proof -
  have a: "(1000 :: u32) \<noteq> 0"
    by simp
  show ?thesis
    using filters_within_nyquist [OF a, of priorConfig traceLib edgeProfile traceState]
    by (simp add: Let_def nyquist_1000 edgeProfile_fields traceLib_fields FILTER_BIQUAD_def
        FILTER_PT1_def)
qed

lemma dT_500000: "dT (pidSetTargetLooptime 500000 cfg) = 1 / 2"
  by (simp add: pidSetTargetLooptime_def f32_micro) (simp add: f32_eval)

lemma nyquist_500000: "pidFrequencyNyquist (pidSetTargetLooptime 500000 cfg) = 1"
  by (simp add: pidFrequencyNyquist_def dT_500000) (simp add: f32_eval)

text \<open>
  C7 as stated fails at a cutoff equal to the Nyquist frequency: at a loop time of
  500000 microseconds \<open>dT\<close> is one half, \<open>0.5 / dT\<close> is 1, and a D-term low-pass cutoff of 1 Hz
  installs the biquad low-pass.
\<close>

theorem filters_nyquist_counterexample:
  "(500000 :: u32) \<noteq> 0
   \<and> 0.5 / dT (pidSetTargetLooptime 500000 priorConfig) = 1
   \<and> real (unat (dterm_lpf_hz slowProfile)) \<ge> 0.5 / dT (pidSetTargetLooptime 500000 priorConfig)
   \<and> dtermLpfApplyFn (fst (pidInitFilters idLib slowProfile
                               (pidSetTargetLooptime 500000 priorConfig, bootState)))
        = biquadFilterApply"
proof -
  have a: "(500000 :: u32) \<noteq> 0"
    by simp
  have l: "dterm_lpf_hz slowProfile = 1" "dterm_filter_type slowProfile = FILTER_BIQUAD"
    by (simp_all add: slowProfile_def resetPidProfile_def)
  have f: "dtermLpfApplyFn (fst (pidInitFilters idLib slowProfile
                               (pidSetTargetLooptime 500000 priorConfig, bootState)))
        = biquadFilterApply"
    by (simp add: pidInitFilters_chain [OF a] initYawLpf_fn initDtermLpf_fn l nyquist_500000
        FILTER_BIQUAD_def FILTER_PT1_def)
  show ?thesis
    using f by (simp add: dT_500000 l)
qed

subsection \<open>The acceleration limiter\<close>

lemma accelerationLimit_fst_cong:
  "previousSetpoint s axis = previousSetpoint s' axis \<Longrightarrow>
   fst (accelerationLimit cfg axis sp s) = fst (accelerationLimit cfg axis sp s')"
  by (simp add: accelerationLimit_def Let_def)

lemma accelerationLimit_value:
  "fst (accelerationLimit cfg axis sp s)
     = (if \<bar>f32 (sp - previousSetpoint s axis)\<bar> > maxVelocity cfg axis
        then (if f32 (sp - previousSetpoint s axis) > 0
              then f32 (previousSetpoint s axis + maxVelocity cfg axis)
              else f32 (previousSetpoint s axis - maxVelocity cfg axis))
        else sp)"
  by (simp add: accelerationLimit_def Let_def ABS_abs)

lemma rounded_sum_bound:
  "\<bar>f32 (p + m) - p\<bar> \<le> \<bar>m\<bar> + (\<bar>p\<bar> + \<bar>m\<bar>) / 2 ^ 23 + 1 / 2 ^ 149"
proof -
  have "\<bar>f32 (p + m) - p\<bar> \<le> \<bar>f32 (p + m) - (p + m)\<bar> + \<bar>m\<bar>"
    by linarith
  also have "\<dots> \<le> (\<bar>p + m\<bar> / 2 ^ 24 + 1 / 2 ^ 150) + \<bar>m\<bar>"
    using f32_error [of "p + m"] by linarith
  also have "\<dots> \<le> ((\<bar>p\<bar> + \<bar>m\<bar>) / 2 ^ 24 + 1 / 2 ^ 150) + \<bar>m\<bar>"
    by (simp add: divide_right_mono)
  also have "\<dots> \<le> \<bar>m\<bar> + (\<bar>p\<bar> + \<bar>m\<bar>) / 2 ^ 23 + 1 / 2 ^ 149"
  proof -
    have "(\<bar>p\<bar> + \<bar>m\<bar>) / 2 ^ 24 \<le> (\<bar>p\<bar> + \<bar>m\<bar>) / 2 ^ 23"
      by (rule divide_left_mono) simp_all
    moreover have "(1 :: real) / 2 ^ 150 \<le> 1 / 2 ^ 149"
      by simp
    ultimately show ?thesis
      by linarith
  qed
  finally show ?thesis .
qed

lemma rounded_within_bound:
  assumes "\<bar>f32 d\<bar> \<le> m"
  shows "\<bar>d\<bar> \<le> m + m / 2 ^ 23 + 1 / 2 ^ 149"
proof -
  have m: "0 \<le> m"
    using assms by linarith
  have "\<bar>d\<bar> \<le> \<bar>f32 d\<bar> + \<bar>f32 d - d\<bar>"
    by linarith
  also have "\<dots> \<le> m + (\<bar>d\<bar> / 2 ^ 24 + 1 / 2 ^ 150)"
    using assms f32_error [of d] by linarith
  finally have a: "\<bar>d\<bar> * (2 ^ 24 - 1) \<le> m * 2 ^ 24 + 1 / 2 ^ 126"
    by (simp add: field_simps)
  have "\<bar>d\<bar> * (2 ^ 24 - 1) \<le> (m + m / 2 ^ 23 + 1 / 2 ^ 149) * (2 ^ 24 - 1)"
  proof -
    have "m * 2 ^ 24 + 1 / 2 ^ 126 \<le> (m + m / 2 ^ 23 + 1 / 2 ^ 149) * (2 ^ 24 - 1)"
      using m by (simp add: field_simps)
    then show ?thesis
      using a by linarith
  qed
  then show ?thesis
    by (rule mult_right_le_imp_le) simp
qed

lemma accelerationLimit_bound:
  "\<bar>fst (accelerationLimit cfg axis sp s) - previousSetpoint s axis\<bar>
     \<le> \<bar>maxVelocity cfg axis\<bar>
         + (\<bar>previousSetpoint s axis\<bar> + \<bar>maxVelocity cfg axis\<bar>) / 2 ^ 23 + 1 / 2 ^ 149"
proof -
  define p where "p = previousSetpoint s axis"
  define m where "m = maxVelocity cfg axis"
  have up: "\<bar>f32 (p + m) - p\<bar> \<le> \<bar>m\<bar> + (\<bar>p\<bar> + \<bar>m\<bar>) / 2 ^ 23 + 1 / 2 ^ 149"
    by (rule rounded_sum_bound)
  have down: "\<bar>f32 (p - m) - p\<bar> \<le> \<bar>m\<bar> + (\<bar>p\<bar> + \<bar>m\<bar>) / 2 ^ 23 + 1 / 2 ^ 149"
    using rounded_sum_bound [of p "- m"] by simp
  have within: "\<bar>sp - p\<bar> \<le> \<bar>m\<bar> + (\<bar>p\<bar> + \<bar>m\<bar>) / 2 ^ 23 + 1 / 2 ^ 149"
    if w: "\<not> \<bar>f32 (sp - p)\<bar> > m"
  proof -
    have le: "\<bar>f32 (sp - p)\<bar> \<le> m"
      using w by simp
    then have m0: "0 \<le> m"
      by linarith
    have "\<bar>sp - p\<bar> \<le> m + m / 2 ^ 23 + 1 / 2 ^ 149"
      by (rule rounded_within_bound [OF le])
    also have "\<dots> \<le> \<bar>m\<bar> + (\<bar>p\<bar> + \<bar>m\<bar>) / 2 ^ 23 + 1 / 2 ^ 149"
      using m0 by (simp add: divide_right_mono)
    finally show ?thesis .
  qed
  show ?thesis
    unfolding accelerationLimit_value p_def [symmetric] m_def [symmetric]
    using up down within by simp
qed

lemma pidAxis_accepted:
  assumes "maxVelocity cfg axis \<noteq> 0"
  shows "previousSetpoint (pidAxis lib cfg p trim env t dt axis s) axis
           = fst (accelerationLimit cfg axis (getSetpointRate env axis) s)"
  using assms
  by (simp add: pidAxis_previousSetpoint limitedSetpoint_def accelerationLimit_def Let_def)

lemma pidAxes_accepted:
  assumes "maxVelocity cfg axis \<noteq> 0"
  shows "previousSetpoint (pidAxis lib cfg p trim env t dt FD_YAW
            (pidAxis lib cfg p trim env t dt FD_PITCH
              (pidAxis lib cfg p trim env t dt FD_ROLL s))) axis
         = fst (accelerationLimit cfg axis (getSetpointRate env axis) s)"
proof (cases axis)
  case FD_ROLL
  then show ?thesis
    using assms by (simp add: pidAxis_other pidAxis_accepted)
next
  case FD_PITCH
  then show ?thesis
    using assms
    by (simp add: pidAxis_other pidAxis_accepted
        accelerationLimit_fst_cong [of "pidAxis lib cfg p trim env t dt FD_ROLL s" FD_PITCH s])
next
  case FD_YAW
  then show ?thesis
    using assms
    by (simp add: pidAxis_other pidAxis_accepted
        accelerationLimit_fst_cong [of "pidAxis lib cfg p trim env t dt FD_PITCH
              (pidAxis lib cfg p trim env t dt FD_ROLL s)" FD_YAW s])
qed

lemma pidController_accepted:
  assumes "maxVelocity cfg axis \<noteq> 0"
  shows "previousSetpoint (pidController lib cfg p trim env t s) axis
           = fst (accelerationLimit cfg axis (getSetpointRate env axis) s)"
proof -
  have same: "fst (accelerationLimit cfg axis (getSetpointRate env axis) (s\<lparr>previousTimeUs := t\<rparr>))
              = fst (accelerationLimit cfg axis (getSetpointRate env axis) s)"
    by (rule accelerationLimit_fst_cong) simp
  show ?thesis
    by (simp only: pidController_unfold pidAxes_accepted [OF assms] same)
qed

lemma dT_nonneg: "0 \<le> dT (pidSetTargetLooptime looptime cfg)"
  unfolding pidSetTargetLooptime_def
  by (simp del: of_nat_unat) (intro f32_nonneg mult_nonneg_nonneg; simp add: unsigned_real_nonneg)

lemma pidInit_maxVelocity:
  "0 \<le> maxVelocity (fst (pidInit lib sc gyroLooptime denom profile cs)) axis"
proof -
  have "0 \<le> dT (fst (pidInitFilters lib profile
                  (pidSetTargetLooptime (gyroLooptime * ucast denom) (fst cs), snd cs)))"
    by (simp only: pidInitFilters_rest fst_conv dT_nonneg)
  then have "0 \<le> f32 (f32 (real (unat (yawRateAccelLimit profile) * 100))
                 * dT (fst (pidInitFilters lib profile
                         (pidSetTargetLooptime (gyroLooptime * ucast denom) (fst cs), snd cs))))"
    and "0 \<le> f32 (f32 (real (unat (rateAccelLimit profile) * 100))
                 * dT (fst (pidInitFilters lib profile
                         (pidSetTargetLooptime (gyroLooptime * ucast denom) (fst cs), snd cs))))"
    by (intro f32_nonneg mult_nonneg_nonneg; simp add: unsigned_real_nonneg)+
  then show ?thesis
    by (simp add: pidInit_def pidInitConfig_def Let_def)
qed

text \<open>
  C2, as the code has it. On an axis whose \<open>maxVelocity\<close> is not zero, the previous
  setpoint a tick of \<open>pidController\<close> stores is the value \<open>accelerationLimit\<close> accepts for the
  requested rate, which is also the value the tick goes on with. With \<open>velocity\<close> the float
  difference of the requested rate and the previous setpoint, the accepted value is the
  requested rate when the magnitude of \<open>velocity\<close> is at most \<open>maxVelocity\<close>, and otherwise the
  float sum or difference of the previous setpoint and \<open>maxVelocity\<close>. Sum, difference and
  \<open>velocity\<close> are rounded to single precision, so the accepted value is within \<open>maxVelocity\<close>
  of the previous setpoint only up to that rounding: their distance is at most
  \<open>maxVelocity + (\<bar>previous\<bar> + maxVelocity) / 2^23 + 2^-149\<close>. The bound is stated with the
  magnitude of \<open>maxVelocity\<close>, which \<open>pidInit\<close> never makes negative.
\<close>

theorem setpoint_slew_limited:
  assumes "maxVelocity cfg axis \<noteq> 0"
  shows "let previous = previousSetpoint s axis;
             requested = getSetpointRate env axis;
             velocity = f32 (requested - previous);
             limit = maxVelocity cfg axis;
             accepted = fst (accelerationLimit cfg axis requested s);
             s' = pidController lib cfg pidProfile angleTrim env currentTimeUs s
         in previousSetpoint s' axis = accepted
            \<and> fst (limitedSetpoint cfg env axis s) = accepted
            \<and> accepted = (if \<bar>velocity\<bar> > limit
                           then (if velocity > 0 then f32 (previous + limit)
                                 else f32 (previous - limit))
                           else requested)
            \<and> \<bar>accepted - previous\<bar> \<le> \<bar>limit\<bar> + (\<bar>previous\<bar> + \<bar>limit\<bar>) / 2 ^ 23 + 1 / 2 ^ 149
            \<and> 0 \<le> maxVelocity (fst (pidInit lib sc gyroLooptime denom profile cs)) axis"
  unfolding Let_def
  using assms accelerationLimit_bound [of cfg axis "getSetpointRate env axis" s]
  by (simp add: pidController_accepted [OF assms] limitedSetpoint_def pidInit_maxVelocity
      accelerationLimit_value [symmetric])

lemma f32_tenth: "f32 (1 / 10) = 13421773 / 134217728"
  by (simp add: f32_eval)

lemma jump_accepted:
  assumes "previousSetpoint s FD_YAW = 13421773 / 134217728"
  shows "fst (accelerationLimit activeConfig FD_YAW 500 s) = 5295309 / 524288"
  unfolding accelerationLimit_value assms activeConfig_maxVelocity
  by (simp add: f32_eval)

lemma tick_facts:
  "getSetpointRate jumpEnv axis = 500"
  "getSetpointRate nudgeEnv axis = 13421773 / 134217728"
  "previousSetpoint bootState axis = 0"
  by (simp_all add: jumpEnv_def nudgeEnv_def restEnv_def bootState_def f32_tenth)

lemma nudge_accepted:
  "previousSetpoint
     (pidController idLib activeConfig resetPidProfile noTrim nudgeEnv 1000 bootState) FD_YAW
     = 13421773 / 134217728"
proof -
  have m: "maxVelocity activeConfig FD_YAW \<noteq> 0"
    by (simp add: activeConfig_maxVelocity)
  have "fst (accelerationLimit activeConfig FD_YAW (13421773 / 134217728) bootState)
          = 13421773 / 134217728"
    unfolding accelerationLimit_value tick_facts activeConfig_maxVelocity
    by (simp add: f32_eval)
  then show ?thesis
    by (simp only: pidController_accepted [OF m] tick_facts)
qed

text \<open>
  From a previous setpoint of \<open>0.1f\<close> and with a \<open>maxVelocity\<close> of 10 on yaw, a requested
  rate of 500 is accepted as the float sum of the two, which lies \<open>10.00000038\<close> above the
  previous setpoint and within the bound.
\<close>

theorem setpoint_slew_limited_witness:
  "maxVelocity activeConfig FD_YAW \<noteq> 0
   \<and> previousSetpoint
        (pidController idLib activeConfig resetPidProfile noTrim nudgeEnv 1000 bootState) FD_YAW
        = 13421773 / 134217728
   \<and> previousSetpoint
        (pidController idLib activeConfig resetPidProfile noTrim jumpEnv 2000
           (pidController idLib activeConfig resetPidProfile noTrim nudgeEnv 1000 bootState)) FD_YAW
        = 5295309 / 524288
   \<and> \<bar>previousSetpoint
        (pidController idLib activeConfig resetPidProfile noTrim jumpEnv 2000
           (pidController idLib activeConfig resetPidProfile noTrim nudgeEnv 1000 bootState)) FD_YAW
       - previousSetpoint
           (pidController idLib activeConfig resetPidProfile noTrim nudgeEnv 1000 bootState) FD_YAW\<bar>
       \<le> \<bar>maxVelocity activeConfig FD_YAW\<bar>
           + (\<bar>previousSetpoint
                (pidController idLib activeConfig resetPidProfile noTrim nudgeEnv 1000 bootState)
                FD_YAW\<bar>
              + \<bar>maxVelocity activeConfig FD_YAW\<bar>) / 2 ^ 23 + 1 / 2 ^ 149"
proof -
  let ?s1 = "pidController idLib activeConfig resetPidProfile noTrim nudgeEnv 1000 bootState"
  let ?s2 = "pidController idLib activeConfig resetPidProfile noTrim jumpEnv 2000 ?s1"
  have m: "maxVelocity activeConfig FD_YAW \<noteq> 0"
    by (simp add: activeConfig_maxVelocity)
  note tick = setpoint_slew_limited [OF m, where env = jumpEnv and lib = idLib
      and pidProfile = resetPidProfile and angleTrim = noTrim and currentTimeUs = 2000
      and s = ?s1 and sc = unitScales and gyroLooptime = 1000 and denom = 1
      and profile = resetPidProfile and cs = "(priorConfig, bootState)", unfolded Let_def]
  have c1: "previousSetpoint ?s2 FD_YAW
              = fst (accelerationLimit activeConfig FD_YAW (getSetpointRate jumpEnv FD_YAW) ?s1)"
    using tick by (rule conjunct1)
  have c4: "\<bar>fst (accelerationLimit activeConfig FD_YAW (getSetpointRate jumpEnv FD_YAW) ?s1)
              - previousSetpoint ?s1 FD_YAW\<bar>
            \<le> \<bar>maxVelocity activeConfig FD_YAW\<bar>
                + (\<bar>previousSetpoint ?s1 FD_YAW\<bar> + \<bar>maxVelocity activeConfig FD_YAW\<bar>) / 2 ^ 23
                + 1 / 2 ^ 149"
    using tick by blast
  have v: "previousSetpoint ?s2 FD_YAW = 5295309 / 524288"
    unfolding c1 tick_facts by (rule jump_accepted [OF nudge_accepted])
  have b: "\<bar>previousSetpoint ?s2 FD_YAW - previousSetpoint ?s1 FD_YAW\<bar>
            \<le> \<bar>maxVelocity activeConfig FD_YAW\<bar>
                + (\<bar>previousSetpoint ?s1 FD_YAW\<bar> + \<bar>maxVelocity activeConfig FD_YAW\<bar>) / 2 ^ 23
                + 1 / 2 ^ 149"
    unfolding c1 by (rule c4)
  show ?thesis
    using m nudge_accepted v b by blast
qed

text \<open>
  C2 as stated fails in single precision: with a \<open>maxVelocity\<close> of 10 on yaw, a tick that
  accepts \<open>0.1f\<close> followed by a tick that requests 500 moves the accepted setpoint by
  \<open>1342177331 / 134217728\<close>, which is more than 10.
\<close>

theorem setpoint_slew_counterexample:
  "maxVelocity activeConfig FD_YAW = 10
   \<and> previousSetpoint
        (pidController idLib activeConfig resetPidProfile noTrim jumpEnv 2000
           (pidController idLib activeConfig resetPidProfile noTrim nudgeEnv 1000 bootState)) FD_YAW
       - previousSetpoint
           (pidController idLib activeConfig resetPidProfile noTrim nudgeEnv 1000 bootState) FD_YAW
       = 1342177331 / 134217728
   \<and> \<bar>previousSetpoint
        (pidController idLib activeConfig resetPidProfile noTrim jumpEnv 2000
           (pidController idLib activeConfig resetPidProfile noTrim nudgeEnv 1000 bootState)) FD_YAW
       - previousSetpoint
           (pidController idLib activeConfig resetPidProfile noTrim nudgeEnv 1000 bootState) FD_YAW\<bar>
       > maxVelocity activeConfig FD_YAW"
proof -
  have m: "maxVelocity activeConfig FD_YAW \<noteq> 0"
    by (simp add: activeConfig_maxVelocity)
  have v: "previousSetpoint
        (pidController idLib activeConfig resetPidProfile noTrim jumpEnv 2000
           (pidController idLib activeConfig resetPidProfile noTrim nudgeEnv 1000 bootState)) FD_YAW
        = 5295309 / 524288"
    by (simp only: pidController_accepted [OF m] tick_facts jump_accepted [OF nudge_accepted])
  show ?thesis
    by (simp add: v nudge_accepted activeConfig_maxVelocity)
qed

end
